theory Spec2Isabelle
  imports Complex_Main "HOL-Library.Sublist"
begin

section \<open>MiniVault: the generation and logging pipeline\<close>

text \<open>
  A shallow embedding of \<^verbatim>\<open>services/llm_service.py\<close> (class \<^verbatim>\<open>OllamaService\<close>),
  \<^verbatim>\<open>services/logging_service.py\<close> (class \<^verbatim>\<open>InteractionLogger\<close>) and the
  \<^verbatim>\<open>/generate\<close> endpoint of \<^verbatim>\<open>app.py\<close>.

  Conventions of the model.
  \<^item> A Python \<^verbatim>\<open>str\<close> is a \<open>string\<close>; the model covers ASCII text. \<^verbatim>\<open>str.lower\<close> acts on
    the letters A to Z and \<^verbatim>\<open>str.strip\<close> removes the ASCII characters for which
    \<^verbatim>\<open>str.isspace\<close> holds.
  \<^item> Everything the program obtains from outside (the answers of the model server, the
    readings of the wall clock, whether the log file can be written) is an input of the
    model, collected in the records \<open>backend\<close> and \<open>app_env\<close>.
  \<^item> A raised exception is the left injection of a sum; \<open>try_except\<close> is the
    \<^verbatim>\<open>try: ... except Exception as e: ...\<close> statement.
  \<^item> A generator is the list of the values it yields, paired with the exception that
    ends it, if any.
  \<^item> The \<^verbatim>\<open>timestamp\<close> key of a stream chunk (the clock at the moment of the yield) is left
    out of the chunk record; no operation reads it.
\<close>

subsection \<open>Strings\<close>

definition lower_char :: "char \<Rightarrow> char" where
  "lower_char c =
     (let n = (of_char c :: nat) in if 65 \<le> n \<and> n \<le> 90 then char_of (n + 32) else c)"

text \<open>\<^verbatim>\<open>prompt.lower()\<close>\<close>

definition lower :: "string \<Rightarrow> string" where
  "lower s = map lower_char s"

text \<open>
  \<^verbatim>\<open>str.isspace\<close> on one ASCII character: tab, line feed, vertical tab, form feed,
  carriage return, the four separators 0x1C to 0x1F, and the space.
\<close>

definition isspace :: "char \<Rightarrow> bool" where
  "isspace c = (let n = (of_char c :: nat) in (9 \<le> n \<and> n \<le> 13) \<or> (28 \<le> n \<and> n \<le> 32))"

definition lstrip :: "string \<Rightarrow> string" where
  "lstrip s = dropWhile isspace s"

definition rstrip :: "string \<Rightarrow> string" where
  "rstrip s = rev (dropWhile isspace (rev s))"

text \<open>\<^verbatim>\<open>s.strip()\<close> removes whitespace at both ends.\<close>

definition strip :: "string \<Rightarrow> string" where
  "strip s = rstrip (lstrip s)"

text \<open>\<^verbatim>\<open>keyword in prompt_lower\<close>: the keyword occurs as a contiguous run.\<close>

definition str_in :: "string \<Rightarrow> string \<Rightarrow> bool" where
  "str_in k s = sublist k s"

text \<open>Decimal rendering of an integer, as an f-string does for a status code.\<close>

fun digits_of :: "nat \<Rightarrow> string" where
  "digits_of n =
     (if n < 10 then [char_of (48 + n)] else digits_of (n div 10) @ [char_of (48 + n mod 10)])"

declare digits_of.simps [simp del]

definition str_int :: "int \<Rightarrow> string" where
  "str_int i = (if i < 0 then CHR ''-'' # digits_of (nat (- i)) else digits_of (nat i))"

text \<open>\<^verbatim>\<open>model or self.default_model\<close>: \<^verbatim>\<open>None\<close> and the empty string are falsy.\<close>

definition py_or :: "string option \<Rightarrow> string \<Rightarrow> string" where
  "py_or m d = (case m of None \<Rightarrow> d | Some s \<Rightarrow> if s = [] then d else s)"

subsection \<open>Exceptions\<close>

text \<open>
  The exception classes the handlers tell apart: \<^verbatim>\<open>requests.exceptions.Timeout\<close>,
  \<^verbatim>\<open>json.JSONDecodeError\<close>, and every other \<^verbatim>\<open>Exception\<close>. The argument is \<^verbatim>\<open>str(e)\<close>.
\<close>

datatype exn = Timeout string | JSONDecodeError string | OtherException string

fun str_exn :: "exn \<Rightarrow> string" where
  "str_exn (Timeout m) = m"
| "str_exn (JSONDecodeError m) = m"
| "str_exn (OtherException m) = m"

definition try_except :: "exn + 'a \<Rightarrow> (exn \<Rightarrow> exn + 'a) \<Rightarrow> exn + 'a" where
  "try_except body handler = (case body of Inl e \<Rightarrow> handler e | Inr v \<Rightarrow> Inr v)"

subsection \<open>Binary floating point\<close>

text \<open>
  A Python \<^verbatim>\<open>float\<close> is an IEEE double; the model takes it as the rational number it
  stands for. \<open>fl x\<close> is the double nearest to \<open>x\<close>, a tie going to the even
  significand: with \<open>2 ^ e \<le> \<bar>x\<bar> < 2 ^ (e + 1)\<close> the doubles around \<open>x\<close> are the multiples
  of \<open>2 ^ (e - 52)\<close>, and of \<open>2 ^ - 1074\<close> in the subnormal range. \<open>fl\<close> has no largest
  value; the operation that can overflow, the division of two integers, checks the
  bound itself.
\<close>

fun bit_length :: "nat \<Rightarrow> nat" where
  "bit_length n = (if n = 0 then 0 else Suc (bit_length (n div 2)))"

declare bit_length.simps [simp del]

text \<open>For \<open>0 < x\<close>, the exponent \<open>e\<close> with \<open>2 ^ e \<le> x < 2 ^ (e + 1)\<close>.\<close>

definition floor_log2 :: "rat \<Rightarrow> int" where
  "floor_log2 x =
     (if 1 \<le> x then int (bit_length (nat \<lfloor>x\<rfloor>)) - 1
      else - int (bit_length (nat (\<lceil>1 / x\<rceil> - 1))))"

definition round_half_even :: "rat \<Rightarrow> int" where
  "round_half_even y =
     (let lo = \<lfloor>y\<rfloor>; frac = y - of_int lo
      in if frac < 1 / 2 then lo
         else if 1 / 2 < frac then lo + 1
         else if even lo then lo else lo + 1)"

definition pow2 :: "int \<Rightarrow> rat" where
  "pow2 e = (if 0 \<le> e then 2 ^ nat e else 1 / 2 ^ nat (- e))"

definition fl :: "rat \<Rightarrow> rat" where
  "fl x =
     (if x = 0 then 0
      else (let q = pow2 (max (floor_log2 \<bar>x\<bar> - 52) (- 1074))
            in of_int (round_half_even (x / q)) * q))"

text \<open>
  \<^verbatim>\<open>a / b\<close> on two integers: the quotient correctly rounded, and \<^verbatim>\<open>OverflowError\<close> when
  it rounds to \<open>2 ^ 1024\<close> or beyond. The callers never pass \<open>b = 0\<close>.
\<close>

definition int_true_div :: "int \<Rightarrow> int \<Rightarrow> exn + rat" where
  "int_true_div a b =
     (let x = fl (of_int a / of_int b)
      in if 2 ^ 1024 \<le> \<bar>x\<bar>
         then Inl (OtherException ''integer division result too large for a float'')
         else Inr x)"

text \<open>\<^verbatim>\<open>int(x)\<close> on a float truncates towards zero.\<close>

definition py_int :: "rat \<Rightarrow> int" where
  "py_int y = (if 0 \<le> y then \<lfloor>y\<rfloor> else - \<lfloor>- y\<rfloor>)"

text \<open>
  \<^verbatim>\<open>round(x, 2)\<close> on a float: the exact value of \<open>x\<close> is rounded to the nearest multiple of
  1/100, a tie going to the even one, and the result is the double nearest to that.
\<close>

definition round2 :: "rat \<Rightarrow> rat" where
  "round2 x = fl (of_int (round_half_even (x * 100)) / 100)"

subsection \<open>The clock\<close>

text \<open>
  A reading of \<^verbatim>\<open>datetime.now()\<close>, in microseconds. A \<^verbatim>\<open>datetime\<close> lies between the years
  1 and 9999, so two readings differ by less than \<open>2 ^ 59\<close> microseconds.
\<close>

type_synonym time = int

text \<open>
  \<^verbatim>\<open>int((end_time - start_time).total_seconds() * 1000)\<close>: \<^verbatim>\<open>total_seconds\<close> divides the
  microseconds of the difference by \<open>10 ^ 6\<close> as integers, giving a float; the product
  with 1000 is rounded again; \<^verbatim>\<open>int\<close> truncates towards zero. Differences of readings
  are far below the range where the division overflows.
\<close>

definition duration_between :: "time \<Rightarrow> time \<Rightarrow> int" where
  "duration_between start_time end_time =
     py_int (fl (fl (of_int (end_time - start_time) / 1000000) * 1000))"

subsection \<open>The model server as seen by one request\<close>

text \<open>
  One line of the streaming body, as the loop over \<^verbatim>\<open>response.iter_lines()\<close> meets it:
  an empty line, a line whose reading or decoding raises, or a JSON object, given by
  \<^verbatim>\<open>chunk_data.get("response", "")\<close> and the truth value of \<^verbatim>\<open>chunk_data.get("done", False)\<close>.
\<close>

datatype stream_line = Blank | Raises exn | Obj string bool

record backend =
  tags_probe :: "exn + int"
    \<comment> \<open>\<^verbatim>\<open>GET /api/tags\<close> in \<^verbatim>\<open>is_available\<close>: raises, or the status code\<close>
  tags_list :: "exn + int \<times> (exn + string list)"
    \<comment> \<open>\<^verbatim>\<open>GET /api/tags\<close> in \<^verbatim>\<open>get_available_models\<close>: the status code and the names
        read from the body, or the exception raised while reading them\<close>
  generate_post :: "exn + int \<times> (exn + string option)"
    \<comment> \<open>\<^verbatim>\<open>POST /api/generate\<close>, not streaming: the status code and the \<^verbatim>\<open>response\<close> key
        of the JSON body (\<open>None\<close> when the key is absent), or the exception raised
        while decoding it\<close>
  generate_stream_post :: "exn + int \<times> stream_line list"
    \<comment> \<open>\<^verbatim>\<open>POST /api/generate\<close>, streaming: the status code and the lines of the body\<close>
  t_start :: time
  t_end :: time
  t_fallback :: time
    \<comment> \<open>the clock before the call, after it, and inside the fallback function\<close>

record ollama_service =
  base_url :: string
  default_model :: string
  timeout :: int

subsection \<open>\<^verbatim>\<open>OllamaService\<close>: results and fallback text\<close>

record generation_result =
  response :: string
  model :: string
  timestamp :: time
  duration_ms :: int
  success :: bool
  error_reason :: "string option"

record stream_chunk =
  token :: string
  chunk_model :: string
  chunk_done :: bool
  chunk_success :: bool
  chunk_error_reason :: "string option"
  chunk_duration_ms :: "int option"
  full_response :: "string option"

text \<open>The dictionary \<^verbatim>\<open>fallback_responses\<close>, in insertion order.\<close>

definition fallback_responses :: "(string \<times> string) list" where
  "fallback_responses =
    [(''hello'', ''Hello! I'm a fallback response since the LLM service is currently unavailable.''),
     (''what'', ''I'm sorry, I cannot provide a detailed answer right now as the LLM service is unavailable. This is a fallback response.''),
     (''how'', ''I'd love to help explain that, but the LLM service is currently unavailable. This is a fallback response.''),
     (''why'', ''That's an interesting question! Unfortunately, the LLM service is unavailable right now, so this is a fallback response.''),
     (''explain'', ''I'd be happy to explain that topic, but the LLM service is currently unavailable. This is a fallback response.'')]"

definition generic_fallback :: string where
  "generic_fallback =
    ''I apologize, but the LLM service is currently unavailable. This is a fallback response to your prompt.''"

text \<open>
  The loop \<^verbatim>\<open>for keyword, response in fallback_responses.items()\<close> with its
  \<^verbatim>\<open>break\<close>; the third argument is the current value of \<^verbatim>\<open>fallback_text\<close>.
\<close>

fun scan_keywords :: "(string \<times> string) list \<Rightarrow> string \<Rightarrow> string \<Rightarrow> string" where
  "scan_keywords [] prompt_lower fallback_text = fallback_text"
| "scan_keywords ((keyword, resp) # rest) prompt_lower fallback_text =
     (if str_in keyword prompt_lower then resp
      else scan_keywords rest prompt_lower fallback_text)"

definition fallback_text_of :: "string \<Rightarrow> string" where
  "fallback_text_of prompt = scan_keywords fallback_responses (lower prompt) generic_fallback"

text \<open>\<^verbatim>\<open>_get_fallback_response\<close>; the first argument is its reading of the clock.\<close>

definition get_fallback_response :: "time \<Rightarrow> string \<Rightarrow> string \<Rightarrow> string \<Rightarrow> generation_result" where
  "get_fallback_response now prompt model_name reason =
     \<lparr>response = fallback_text_of prompt,
      model = model_name @ '' (fallback)'',
      timestamp = now,
      duration_ms = 0,
      success = False,
      error_reason = Some reason\<rparr>"

text \<open>\<^verbatim>\<open>_get_fallback_stream_response\<close>\<close>

definition get_fallback_stream_response :: "string \<Rightarrow> string \<Rightarrow> string \<Rightarrow> stream_chunk" where
  "get_fallback_stream_response prompt model_name reason =
     \<lparr>token = fallback_text_of prompt,
      chunk_model = model_name @ '' (fallback)'',
      chunk_done = True,
      chunk_success = False,
      chunk_error_reason = Some reason,
      chunk_duration_ms = Some 0,
      full_response = Some (fallback_text_of prompt)\<rparr>"

subsection \<open>\<^verbatim>\<open>OllamaService\<close>: probing the server\<close>

definition is_available :: "backend \<Rightarrow> exn + bool" where
  "is_available b =
     try_except
       (case tags_probe b of Inl e \<Rightarrow> Inl e | Inr status_code \<Rightarrow> Inr (status_code = 200))
       (\<lambda>e. Inr False)"

definition get_available_models :: "backend \<Rightarrow> exn + string list" where
  "get_available_models b =
     try_except
       (case tags_list b of
          Inl e \<Rightarrow> Inl e
        | Inr (status_code, body) \<Rightarrow>
            if status_code = 200
            then (case body of Inl e \<Rightarrow> Inl e | Inr names \<Rightarrow> Inr names)
            else Inr [])
       (\<lambda>e. Inr [])"

subsection \<open>\<^verbatim>\<open>OllamaService.generate_response\<close>\<close>

text \<open>The \<^verbatim>\<open>try\<close> statement of lines 68 to 109, for the model name already chosen.\<close>

definition generate_call :: "backend \<Rightarrow> string \<Rightarrow> string \<Rightarrow> exn + generation_result" where
  "generate_call b prompt model_name =
     try_except
       (case generate_post b of
          Inl e \<Rightarrow> Inl e
        | Inr (status_code, body) \<Rightarrow>
            if status_code = 200
            then (case body of
                    Inl e \<Rightarrow> Inl e
                  | Inr resp \<Rightarrow>
                      Inr \<lparr>response = strip (case resp of None \<Rightarrow> [] | Some text \<Rightarrow> text),
                           model = model_name,
                           timestamp = t_end b,
                           duration_ms = duration_between (t_start b) (t_end b),
                           success = True,
                           error_reason = None\<rparr>)
            else Inr (get_fallback_response (t_fallback b) prompt model_name
                        (''API error: '' @ str_int status_code)))
       (\<lambda>e. case e of
          Timeout m \<Rightarrow> Inr (get_fallback_response (t_fallback b) prompt model_name ''Request timeout'')
        | _ \<Rightarrow> Inr (get_fallback_response (t_fallback b) prompt model_name (str_exn e)))"

definition generate_response ::
  "ollama_service \<Rightarrow> backend \<Rightarrow> string \<Rightarrow> string option \<Rightarrow> exn + generation_result" where
  "generate_response svc b prompt model_arg =
     (let model_name = py_or model_arg (default_model svc) in
      case is_available b of
        Inl e \<Rightarrow> Inl e
      | Inr available \<Rightarrow>
          if \<not> available
          then Inr (get_fallback_response (t_fallback b) prompt model_name ''Ollama service unavailable'')
          else
            (case get_available_models b of
               Inl e \<Rightarrow> Inl e
             | Inr available_models \<Rightarrow>
                 if available_models \<noteq> [] \<and> model_name \<notin> set available_models
                 then (if available_models \<noteq> []
                       then generate_call b prompt (hd available_models)
                       else Inr (get_fallback_response (t_fallback b) prompt model_name
                                   ''No models available''))
                 else generate_call b prompt model_name))"

subsection \<open>\<^verbatim>\<open>OllamaService.generate_response_stream\<close>\<close>

definition token_chunk :: "string \<Rightarrow> string \<Rightarrow> bool \<Rightarrow> stream_chunk" where
  "token_chunk model_name tok dn =
     \<lparr>token = tok, chunk_model = model_name, chunk_done = dn, chunk_success = True,
      chunk_error_reason = None, chunk_duration_ms = None, full_response = None\<rparr>"

definition terminal_chunk :: "backend \<Rightarrow> string \<Rightarrow> string \<Rightarrow> stream_chunk" where
  "terminal_chunk b model_name full =
     \<lparr>token = [], chunk_model = model_name, chunk_done = True, chunk_success = True,
      chunk_error_reason = None,
      chunk_duration_ms = Some (duration_between (t_start b) (t_end b)),
      full_response = Some (strip full)\<rparr>"

text \<open>
  The loop \<^verbatim>\<open>for line in response.iter_lines()\<close>; the third argument is the current
  \<^verbatim>\<open>full_response\<close>. The result is the chunks yielded and the exception that leaves
  the loop, if any. A \<^verbatim>\<open>JSONDecodeError\<close> is met by \<^verbatim>\<open>continue\<close>, any other exception
  leaves the loop, and a line with a true \<^verbatim>\<open>done\<close> ends it by \<^verbatim>\<open>break\<close>.
\<close>

fun iter_lines :: "backend \<Rightarrow> string \<Rightarrow> string \<Rightarrow> stream_line list \<Rightarrow> stream_chunk list \<times> exn option" where
  "iter_lines b model_name full [] = ([], None)"
| "iter_lines b model_name full (Blank # rest) = iter_lines b model_name full rest"
| "iter_lines b model_name full (Raises e # rest) =
     (case e of
        JSONDecodeError m \<Rightarrow> iter_lines b model_name full rest
      | _ \<Rightarrow> ([], Some e))"
| "iter_lines b model_name full (Obj tok dn # rest) =
     (let full' = (if tok \<noteq> [] then full @ tok else full);
          yielded = (if tok \<noteq> [] then [token_chunk model_name tok dn] else [])
      in if dn then (yielded @ [terminal_chunk b model_name full'], None)
         else (case iter_lines b model_name full' rest of
                 (chunks, raised) \<Rightarrow> (yielded @ chunks, raised)))"

text \<open>The two \<^verbatim>\<open>except\<close> clauses that close the generator's \<^verbatim>\<open>try\<close>.\<close>

definition stream_handler :: "string \<Rightarrow> string \<Rightarrow> exn \<Rightarrow> stream_chunk" where
  "stream_handler prompt model_name e =
     (case e of
        Timeout m \<Rightarrow> get_fallback_stream_response prompt model_name ''Request timeout''
      | _ \<Rightarrow> get_fallback_stream_response prompt model_name (str_exn e))"

text \<open>The \<^verbatim>\<open>try\<close> statement of lines 141 to 203, for the model name already chosen.\<close>

definition stream_call :: "backend \<Rightarrow> string \<Rightarrow> string \<Rightarrow> stream_chunk list \<times> exn option" where
  "stream_call b prompt model_name =
     (case generate_stream_post b of
        Inl e \<Rightarrow> ([stream_handler prompt model_name e], None)
      | Inr (status_code, body) \<Rightarrow>
          if status_code = 200
          then (case iter_lines b model_name [] body of
                  (chunks, None) \<Rightarrow> (chunks, None)
                | (chunks, Some e) \<Rightarrow> (chunks @ [stream_handler prompt model_name e], None))
          else ([get_fallback_stream_response prompt model_name
                   (''API error: '' @ str_int status_code)], None))"

definition generate_response_stream ::
  "ollama_service \<Rightarrow> backend \<Rightarrow> string \<Rightarrow> string option \<Rightarrow> stream_chunk list \<times> exn option" where
  "generate_response_stream svc b prompt model_arg =
     (let model_name = py_or model_arg (default_model svc) in
      case is_available b of
        Inl e \<Rightarrow> ([], Some e)
      | Inr available \<Rightarrow>
          if \<not> available
          then ([get_fallback_stream_response prompt model_name ''Ollama service unavailable''], None)
          else
            (case get_available_models b of
               Inl e \<Rightarrow> ([], Some e)
             | Inr available_models \<Rightarrow>
                 if available_models \<noteq> [] \<and> model_name \<notin> set available_models
                 then (if available_models \<noteq> []
                       then stream_call b prompt (hd available_models)
                       else ([get_fallback_stream_response prompt model_name
                                ''No models available''], None))
                 else stream_call b prompt model_name))"

subsection \<open>\<^verbatim>\<open>InteractionLogger\<close>\<close>

record log_entry =
  le_timestamp :: time
  le_prompt :: string
  le_response :: string
  le_model :: string
  le_duration_ms :: int
  le_success :: bool
  le_error_reason :: "string option"

text \<open>
  A line of the log file is
   \<^item> an entry as \<^verbatim>\<open>log_interaction\<close> wrote it, which \<^verbatim>\<open>json.loads\<close> gives back as a
     dictionary;
   \<^item> text that \<^verbatim>\<open>json.loads\<close> parses to a value that is not a dictionary (a number, a
     string, a list, \<^verbatim>\<open>true\<close>, \<^verbatim>\<open>false\<close> or \<^verbatim>\<open>null\<close>);
   \<^item> text on which \<^verbatim>\<open>json.loads\<close> raises \<^verbatim>\<open>JSONDecodeError\<close>, such as a write cut short
     or a line of whitespace;
   \<^item> the text of an entry written directly after a line that had no newline at its
     end and was not whitespace: a complete or broken value followed by the entry, on
     which \<^verbatim>\<open>json.loads\<close> raises \<^verbatim>\<open>JSONDecodeError\<close> as well.

  A dictionary that \<^verbatim>\<open>log_interaction\<close> did not write is outside the model.

  The file is absent; or cannot be opened or read; or holds lines that all end with a
  newline (\<open>Content\<close>); or holds such lines followed by a last, non-empty line without
  a newline (\<open>Truncated\<close>), which a reader sees as one more line.
\<close>

datatype log_line =
    Entry log_entry
  | NonObject string
  | Unparseable string
  | Glued log_line log_entry

text \<open>What \<^verbatim>\<open>json.loads\<close> returns for a line that parses.\<close>

datatype json_value = EntryObject log_entry | OtherValue string

datatype log_file =
    Absent
  | Unreadable exn
  | Content "log_line list"
  | Truncated "log_line list" log_line

text \<open>
  \<^verbatim>\<open>log_interaction\<close>. The dictionary \<^verbatim>\<open>response_data\<close> is a result record, so each
  \<^verbatim>\<open>get\<close> finds its key. The first argument tells whether opening and writing the
  file succeed; when they do not, the exception is logged and nothing is appended. A
  file that cannot be read stays so after a write. The write is the text of the entry
  and a newline, at the end of the file: after a last line without a newline the text
  lands on that line, and the line parses as the entry only when what was there is
  whitespace, which \<^verbatim>\<open>strip\<close> removes.
\<close>

definition make_log_entry :: "string \<Rightarrow> generation_result \<Rightarrow> log_entry" where
  "make_log_entry prompt_text response_data =
     \<lparr>le_timestamp = timestamp response_data,
      le_prompt = prompt_text,
      le_response = response response_data,
      le_model = model response_data,
      le_duration_ms = duration_ms response_data,
      le_success = success response_data,
      le_error_reason = error_reason response_data\<rparr>"

fun blank_line :: "log_line \<Rightarrow> bool" where
  "blank_line (Unparseable s) = list_all isspace s"
| "blank_line (Entry e) = False"
| "blank_line (NonObject s) = False"
| "blank_line (Glued l e) = False"

definition log_interaction :: "bool \<Rightarrow> log_file \<Rightarrow> string \<Rightarrow> generation_result \<Rightarrow> log_file" where
  "log_interaction write_ok file prompt_text response_data =
     (if \<not> write_ok then file
      else (case file of
              Absent \<Rightarrow> Content [Entry (make_log_entry prompt_text response_data)]
            | Unreadable e \<Rightarrow> Unreadable e
            | Content lines \<Rightarrow> Content (lines @ [Entry (make_log_entry prompt_text response_data)])
            | Truncated lines last_line \<Rightarrow>
                if blank_line last_line
                then Content (lines @ [Entry (make_log_entry prompt_text response_data)])
                else Content (lines @ [Glued last_line (make_log_entry prompt_text response_data)])))"

text \<open>\<^verbatim>\<open>xs[i:]\<close>: a negative index counts from the end, and both ends are clamped.\<close>

definition py_slice_from :: "'a list \<Rightarrow> int \<Rightarrow> 'a list" where
  "py_slice_from xs i =
     (if i < 0 then drop (nat (int (length xs) + i)) xs else drop (nat i) xs)"

text \<open>
  The loop that parses the lines, collects what \<^verbatim>\<open>json.loads\<close> returns and passes over
  the lines on which it raises \<^verbatim>\<open>JSONDecodeError\<close>.
\<close>

fun parse_lines :: "log_line list \<Rightarrow> json_value list" where
  "parse_lines [] = []"
| "parse_lines (Entry e # rest) = EntryObject e # parse_lines rest"
| "parse_lines (NonObject s # rest) = OtherValue s # parse_lines rest"
| "parse_lines (Unparseable s # rest) = parse_lines rest"
| "parse_lines (Glued l e # rest) = parse_lines rest"

definition get_recent_logs :: "log_file \<Rightarrow> int \<Rightarrow> json_value list" where
  "get_recent_logs file limit =
     (case file of
        Absent \<Rightarrow> []
      | Unreadable e \<Rightarrow> []
      | Content lines \<Rightarrow>
          parse_lines (if int (length lines) > limit then py_slice_from lines (- limit) else lines)
      | Truncated terminated last_line \<Rightarrow>
          (let lines = terminated @ [last_line]
           in parse_lines
                (if int (length lines) > limit then py_slice_from lines (- limit) else lines)))"

record log_stats =
  total_interactions :: int
  successful_interactions :: int
  failed_interactions :: int
  average_duration_ms :: rat

record stats_acc =
  total :: int
  successful :: int
  failed :: int
  total_duration :: int

text \<open>
  The loop \<^verbatim>\<open>for line in f\<close> of \<^verbatim>\<open>get_log_stats\<close>, over its four counters. On a value
  that is not a dictionary \<^verbatim>\<open>entry.get\<close> raises \<^verbatim>\<open>AttributeError\<close>, which the handler of
  the loop does not catch.
\<close>

definition attribute_error :: exn where
  "attribute_error = OtherException ''object has no attribute get''"

fun scan_stats :: "stats_acc \<Rightarrow> log_line list \<Rightarrow> exn + stats_acc" where
  "scan_stats acc [] = Inr acc"
| "scan_stats acc (Unparseable s # rest) = scan_stats acc rest"
| "scan_stats acc (Glued l e # rest) = scan_stats acc rest"
| "scan_stats acc (NonObject s # rest) = Inl attribute_error"
| "scan_stats acc (Entry e # rest) =
     scan_stats
       \<lparr>total = total acc + 1,
        successful = (if le_success e then successful acc + 1 else successful acc),
        failed = (if le_success e then failed acc else failed acc + 1),
        total_duration = total_duration acc + le_duration_ms e\<rparr>
       rest"

definition zero_stats :: log_stats where
  "zero_stats =
     \<lparr>total_interactions = 0, successful_interactions = 0, failed_interactions = 0,
      average_duration_ms = 0\<rparr>"

text \<open>
  The body of \<^verbatim>\<open>get_log_stats\<close> on the lines read. An exception of the loop or of the
  division leaves through the outer \<^verbatim>\<open>except\<close>, which returns all zeros. With no entry
  the average is the integer 0, which \<^verbatim>\<open>round\<close> leaves as it is.
\<close>

definition stats_of_lines :: "log_line list \<Rightarrow> log_stats" where
  "stats_of_lines lines =
     (case scan_stats \<lparr>total = 0, successful = 0, failed = 0, total_duration = 0\<rparr> lines of
        Inl e \<Rightarrow> zero_stats
      | Inr acc \<Rightarrow>
          if total acc > 0
          then (case int_true_div (total_duration acc) (total acc) of
                  Inl e \<Rightarrow> zero_stats
                | Inr avg_duration \<Rightarrow>
                    \<lparr>total_interactions = total acc,
                     successful_interactions = successful acc,
                     failed_interactions = failed acc,
                     average_duration_ms = round2 avg_duration\<rparr>)
          else \<lparr>total_interactions = total acc,
                successful_interactions = successful acc,
                failed_interactions = failed acc,
                average_duration_ms = 0\<rparr>)"

definition get_log_stats :: "log_file \<Rightarrow> log_stats" where
  "get_log_stats file =
     (case file of
        Absent \<Rightarrow> zero_stats
      | Unreadable e \<Rightarrow> zero_stats
      | Content lines \<Rightarrow> stats_of_lines lines
      | Truncated terminated last_line \<Rightarrow> stats_of_lines (terminated @ [last_line]))"

subsection \<open>The \<^verbatim>\<open>/generate\<close> endpoint\<close>

record generate_request =
  prompt :: string
  req_model :: "string option"
  stream :: bool

text \<open>What the endpoint obtains from outside besides the model server.\<close>

record app_env =
  write_ok :: bool
    \<comment> \<open>whether the write to the log file succeeds\<close>
  a_start :: time
  a_end :: time
  a_error :: time
    \<comment> \<open>the endpoint's own readings of the clock\<close>

datatype sse_event =
    Data stream_chunk
  | ErrorData string string
      \<comment> \<open>the synthetic error chunk: its model name and its \<^verbatim>\<open>error\<close> text\<close>
  | DoneSentinel

datatype endpoint_response =
    Complete string string time
      \<comment> \<open>\<^verbatim>\<open>GenerateResponse(response, model, timestamp)\<close>\<close>
  | Streaming "sse_event list"
  | ServerError string

text \<open>
  The loop of \<^verbatim>\<open>generate_stream\<close> over the chunks; the first argument is the current
  \<^verbatim>\<open>full_response\<close>. It returns the events sent and, when it met a chunk with a true
  \<^verbatim>\<open>done\<close>, the text accumulated so far together with that chunk.
\<close>

fun relay :: "string \<Rightarrow> stream_chunk list \<Rightarrow> sse_event list \<times> (string \<times> stream_chunk) option" where
  "relay full [] = ([], None)"
| "relay full (chunk # rest) =
     (let sent = (if token chunk \<noteq> [] then [Data chunk] else []);
          full' = (if token chunk \<noteq> [] then full @ token chunk else full)
      in if chunk_done chunk then (sent @ [Data chunk], Some (full', chunk))
         else (case relay full' rest of (events, fin) \<Rightarrow> (sent @ events, fin)))"

text \<open>The dictionary \<^verbatim>\<open>log_data\<close> built at the chunk with a true \<^verbatim>\<open>done\<close>.\<close>

definition stream_log_data :: "app_env \<Rightarrow> string \<Rightarrow> stream_chunk \<Rightarrow> generation_result" where
  "stream_log_data env full chunk =
     \<lparr>response = full,
      model = chunk_model chunk,
      timestamp = a_end env,
      duration_ms = duration_between (a_start env) (a_end env),
      success = chunk_success chunk,
      error_reason =
        (if \<not> chunk_success chunk
         then Some (case chunk_error_reason chunk of None \<Rightarrow> ''Unknown error'' | Some r \<Rightarrow> r)
         else None)\<rparr>"

text \<open>The generator \<^verbatim>\<open>generate_stream\<close>: the events it sends and the log file afterwards.\<close>

definition generate_stream ::
  "ollama_service \<Rightarrow> backend \<Rightarrow> app_env \<Rightarrow> log_file \<Rightarrow> generate_request \<Rightarrow> sse_event list \<times> log_file" where
  "generate_stream svc b env file req =
     (case generate_response_stream svc b (prompt req) (req_model req) of
        (chunks, raised) \<Rightarrow>
          (case relay [] chunks of
             (events, Some (full, chunk)) \<Rightarrow>
               (events @ [DoneSentinel],
                log_interaction (write_ok env) file (prompt req) (stream_log_data env full chunk))
           | (events, None) \<Rightarrow>
               (case raised of
                  None \<Rightarrow> (events @ [DoneSentinel], file)
                | Some e \<Rightarrow>
                    (let model_name = (if chunks = [] then [] else chunk_model (last chunks))
                     in (events @
                           [ErrorData (if model_name = [] then ''error'' else model_name) (str_exn e),
                            DoneSentinel],
                         file)))))"

text \<open>The endpoint \<^verbatim>\<open>generate_response\<close> of \<^verbatim>\<open>app.py\<close>: its answer and the log file afterwards.\<close>

definition generate_endpoint ::
  "ollama_service \<Rightarrow> backend \<Rightarrow> app_env \<Rightarrow> log_file \<Rightarrow> generate_request \<Rightarrow> endpoint_response \<times> log_file" where
  "generate_endpoint svc b env file req =
     (if stream req
      then (case generate_stream svc b env file req of (events, file') \<Rightarrow> (Streaming events, file'))
      else
        (case generate_response svc b (prompt req) (req_model req) of
           Inr response_data \<Rightarrow>
             (Complete (response response_data) (model response_data) (timestamp response_data),
              log_interaction (write_ok env) file (prompt req) response_data)
         | Inl e \<Rightarrow>
             (ServerError (''Failed to generate response: '' @ str_exn e),
              log_interaction (write_ok env) file (prompt req)
                \<lparr>response = ''Internal server error: '' @ str_exn e,
                 model = ''error'',
                 timestamp = a_error env,
                 duration_ms = 0,
                 success = False,
                 error_reason = Some (str_exn e)\<rparr>)))"

text \<open>The number of values a reader finds in the log file.\<close>

definition entry_count :: "log_file \<Rightarrow> nat" where
  "entry_count file =
     (case file of
        Content lines \<Rightarrow> length (parse_lines lines)
      | Truncated terminated last_line \<Rightarrow> length (parse_lines (terminated @ [last_line]))
      | _ \<Rightarrow> 0)"

subsection \<open>Definitions used to state the properties\<close>

text \<open>The log file after a sequence of calls of \<^verbatim>\<open>log_interaction\<close> whose writes succeed.\<close>

definition append_all :: "log_file \<Rightarrow> (string \<times> generation_result) list \<Rightarrow> log_file" where
  "append_all file calls = foldl (\<lambda>f (p, d). log_interaction True f p d) file calls"

text \<open>
  The entries among the lines, and whether some line parses to a value that is not a
  dictionary.
\<close>

fun entries_of :: "log_line list \<Rightarrow> log_entry list" where
  "entries_of [] = []"
| "entries_of (Entry e # rest) = e # entries_of rest"
| "entries_of (NonObject s # rest) = entries_of rest"
| "entries_of (Unparseable s # rest) = entries_of rest"
| "entries_of (Glued l e # rest) = entries_of rest"

fun has_non_object :: "log_line list \<Rightarrow> bool" where
  "has_non_object [] = False"
| "has_non_object (NonObject s # rest) = True"
| "has_non_object (Entry e # rest) = has_non_object rest"
| "has_non_object (Unparseable s # rest) = has_non_object rest"
| "has_non_object (Glued l e # rest) = has_non_object rest"

text \<open>
  The statistics in the words of the specification, for a list of entries: the counts,
  and the average as Python computes it, the quotient of two integers as a float,
  rounded to two decimals. The quotient overflows when it rounds to \<open>2 ^ 1024\<close> or
  beyond.
\<close>

definition float_average :: "log_entry list \<Rightarrow> rat" where
  "float_average es = fl (of_int (sum_list (map le_duration_ms es)) / of_int (int (length es)))"

definition average_overflows :: "log_entry list \<Rightarrow> bool" where
  "average_overflows es = (es \<noteq> [] \<and> 2 ^ 1024 \<le> \<bar>float_average es\<bar>)"

definition expected_stats :: "log_entry list \<Rightarrow> log_stats" where
  "expected_stats es =
     \<lparr>total_interactions = int (length es),
      successful_interactions = int (length (filter le_success es)),
      failed_interactions = int (length es) - int (length (filter le_success es)),
      average_duration_ms = (if es = [] then 0 else round2 (float_average es))\<rparr>"

text \<open>A result with a given duration and success flag, for the worked examples.\<close>

definition sample_result :: "int \<Rightarrow> bool \<Rightarrow> generation_result" where
  "sample_result d ok =
     \<lparr>response = ''r'', model = ''llama2'', timestamp = 0, duration_ms = d, success = ok,
      error_reason = (if ok then None else Some ''Request timeout'')\<rparr>"

text \<open>
  The selection of the fallback text in the words of the specification: the canned
  sentence of the first keyword, in the fixed order, that occurs in the lowercased
  prompt, and the generic apology when none occurs.
\<close>

definition canned_sentence :: "string \<Rightarrow> string" where
  "canned_sentence kw =
     (case map_of fallback_responses kw of Some s \<Rightarrow> s | None \<Rightarrow> generic_fallback)"

definition fallback_text_spec :: "string \<Rightarrow> string" where
  "fallback_text_spec p =
     (case find (\<lambda>kw. sublist kw (lower p)) [''hello'', ''what'', ''how'', ''why'', ''explain''] of
        None \<Rightarrow> generic_fallback
      | Some kw \<Rightarrow> canned_sentence kw)"

text \<open>A service with the default settings, and a server that answers every call.\<close>

definition svc0 :: ollama_service where
  "svc0 = \<lparr>base_url = ''http://localhost:11434'', default_model = ''llama2'', timeout = 30\<rparr>"

definition backend_ok :: backend where
  "backend_ok =
     \<lparr>tags_probe = Inr 200,
      tags_list = Inr (200, Inr [''llama2'']),
      generate_post = Inr (200, Inr (Some ''Hi'')),
      generate_stream_post = Inr (200, [Obj ''Hi'' False, Obj [] True]),
      t_start = 0, t_end = 1500000, t_fallback = 1500000\<rparr>"

text \<open>
  The model name the request ends up with, in the words of the specification: the
  requested name, else the configured default; when the server lists models and the
  name is not among them, the first listed model.
\<close>

definition resolved_model :: "ollama_service \<Rightarrow> backend \<Rightarrow> string option \<Rightarrow> string" where
  "resolved_model svc b model_arg =
     (let name = py_or model_arg (default_model svc) in
      case get_available_models b of
        Inr (first # others) \<Rightarrow> if name \<in> set (first # others) then name else first
      | _ \<Rightarrow> name)"

text \<open>The exception the non-streaming generation call raises, if it raises one.\<close>

definition call_exn :: "backend \<Rightarrow> exn option" where
  "call_exn b =
     (case generate_post b of
        Inl e \<Rightarrow> Some e
      | Inr (status_code, body) \<Rightarrow>
          if status_code = 200 then (case body of Inl e \<Rightarrow> Some e | Inr r \<Rightarrow> None) else None)"

text \<open>The exception of the generation call, if any, has a description that is not empty.\<close>

definition described :: "backend \<Rightarrow> bool" where
  "described b = (case call_exn b of None \<Rightarrow> True | Some e \<Rightarrow> str_exn e \<noteq> [])"

text \<open>
  The lines of a streaming body that end the loop: a line with a true \<^verbatim>\<open>done\<close>, and a
  line that raises anything but a JSON decoding error.
\<close>

fun ends_loop :: "stream_line \<Rightarrow> bool" where
  "ends_loop Blank = False"
| "ends_loop (Raises (JSONDecodeError m)) = False"
| "ends_loop (Raises e) = True"
| "ends_loop (Obj tok dn) = dn"

fun line_token :: "stream_line \<Rightarrow> string" where
  "line_token (Obj tok dn) = tok"
| "line_token l = []"

text \<open>One chunk with a false \<^verbatim>\<open>done\<close> for each line that carries a token.\<close>

definition sent_tokens :: "string \<Rightarrow> stream_line list \<Rightarrow> stream_chunk list" where
  "sent_tokens model_name ls =
     map (\<lambda>t. token_chunk model_name t False) (filter (\<lambda>t. t \<noteq> []) (map line_token ls))"

text \<open>
  How a streaming request ends, read off the server's behaviour: with a fallback chunk
  for a stated reason, with the terminal chunk after a line with a true \<^verbatim>\<open>done\<close> (whose
  token is recorded), or with the body running out before any such line.
\<close>

datatype stream_end = Fallback string | Done string | RunsOut

definition stream_outcome :: "backend \<Rightarrow> stream_end" where
  "stream_outcome b =
     (if is_available b \<noteq> Inr True then Fallback ''Ollama service unavailable''
      else case generate_stream_post b of
             Inl (Timeout m) \<Rightarrow> Fallback ''Request timeout''
           | Inl e \<Rightarrow> Fallback (str_exn e)
           | Inr (status_code, body) \<Rightarrow>
               if status_code \<noteq> 200 then Fallback (''API error: '' @ str_int status_code)
               else (case find ends_loop body of
                       None \<Rightarrow> RunsOut
                     | Some Blank \<Rightarrow> RunsOut
                     | Some (Raises (Timeout m)) \<Rightarrow> Fallback ''Request timeout''
                     | Some (Raises e) \<Rightarrow> Fallback (str_exn e)
                     | Some (Obj tok dn) \<Rightarrow> Done tok))"

text \<open>The lines of the body that the loop reads before the line that ends it.\<close>

definition stream_prefix :: "backend \<Rightarrow> stream_line list" where
  "stream_prefix b =
     (if is_available b \<noteq> Inr True then []
      else case generate_stream_post b of
             Inl e \<Rightarrow> []
           | Inr (status_code, body) \<Rightarrow>
               if status_code \<noteq> 200 then [] else takeWhile (\<lambda>l. \<not> ends_loop l) body)"

text \<open>The model name on the chunks: resolved only when the server is available.\<close>

definition stream_model :: "ollama_service \<Rightarrow> backend \<Rightarrow> string option \<Rightarrow> string" where
  "stream_model svc b model_arg =
     (if is_available b = Inr True then resolved_model svc b model_arg
      else py_or model_arg (default_model svc))"

text \<open>
  The reason with which the non-streaming call fails, read off the server's behaviour;
  \<open>None\<close> when it does not fail.
\<close>

definition failure_reason :: "backend \<Rightarrow> string option" where
  "failure_reason b =
     (if is_available b \<noteq> Inr True then Some ''Ollama service unavailable''
      else case generate_post b of
             Inl (Timeout m) \<Rightarrow> Some ''Request timeout''
           | Inl e \<Rightarrow> Some (str_exn e)
           | Inr (status_code, body) \<Rightarrow>
               if status_code \<noteq> 200 then Some (''API error: '' @ str_int status_code)
               else (case body of
                       Inl (Timeout m) \<Rightarrow> Some ''Request timeout''
                     | Inl e \<Rightarrow> Some (str_exn e)
                     | Inr resp \<Rightarrow> None))"

text \<open>An endpoint environment in which the log file can be written.\<close>

definition env0 :: app_env where
  "env0 = \<lparr>write_ok = True, a_start = 0, a_end = 2000000, a_error = 2000000\<rparr>"

section \<open>Properties of the floating-point operations\<close>

lemma round_half_even_close: "\<bar>of_int (round_half_even y) - y\<bar> \<le> 1 / 2"
proof -
  have "of_int \<lfloor>y\<rfloor> \<le> y" "y < of_int \<lfloor>y\<rfloor> + 1" by linarith+
  then show ?thesis by (auto simp: round_half_even_def Let_def)
qed

lemma round_half_even_tie:
  "\<bar>of_int (round_half_even y) - y\<bar> = 1 / 2 \<Longrightarrow> even (round_half_even y)"
proof -
  have "of_int \<lfloor>y\<rfloor> \<le> y" "y < of_int \<lfloor>y\<rfloor> + 1" by linarith+
  then show "\<bar>of_int (round_half_even y) - y\<bar> = 1 / 2 \<Longrightarrow> even (round_half_even y)"
    by (auto simp: round_half_even_def Let_def split: if_splits)
qed

lemma round2_nearest:
  "\<exists>k. round2 y = fl (of_int k / 100) \<and> \<bar>of_int k / 100 - y\<bar> \<le> 1 / 200
       \<and> (\<bar>of_int k / 100 - y\<bar> = 1 / 200 \<longrightarrow> even k)"
proof -
  let ?k = "round_half_even (y * 100)"
  have c: "\<bar>of_int ?k - y * 100\<bar> \<le> 1 / 2" by (rule round_half_even_close)
  have "of_int ?k / 100 - y = (of_int ?k - y * 100) / 100"
    by (simp add: diff_divide_distrib)
  then have "\<bar>of_int ?k / 100 - y\<bar> = \<bar>(of_int ?k - y * 100) / 100\<bar>"
    by (rule arg_cong)
  then have e: "\<bar>of_int ?k / 100 - y\<bar> = \<bar>of_int ?k - y * 100\<bar> / 100"
    by (simp only: abs_divide)
  have 1: "\<bar>of_int ?k / 100 - y\<bar> \<le> 1 / 200" using c e by simp
  have 2: "\<bar>of_int ?k / 100 - y\<bar> = 1 / 200 \<longrightarrow> even ?k"
  proof
    assume "\<bar>of_int ?k / 100 - y\<bar> = 1 / 200"
    then have "\<bar>of_int ?k - y * 100\<bar> = 1 / 2" using e by simp
    then show "even ?k" by (rule round_half_even_tie)
  qed
  show ?thesis using 1 2 by (intro exI [of _ ?k]) (simp add: round2_def)
qed

lemma bit_length_le: "n < 2 ^ k \<Longrightarrow> bit_length n \<le> k"
proof (induction k arbitrary: n)
  case 0
  then show ?case by (simp add: bit_length.simps)
next
  case (Suc k)
  show ?case
  proof (cases "n = 0")
    case True
    then show ?thesis by (simp add: bit_length.simps)
  next
    case False
    have "n div 2 < 2 ^ k" using Suc.prems by simp
    then have "bit_length (n div 2) \<le> k" by (rule Suc.IH)
    then show ?thesis using False by (subst bit_length.simps) simp
  qed
qed

lemma floor_log2_le: "0 < x \<Longrightarrow> x \<le> 2 ^ 53 \<Longrightarrow> floor_log2 x \<le> 53"
proof -
  assume x: "0 < x" "x \<le> 2 ^ 53"
  show ?thesis
  proof (cases "1 \<le> x")
    case True
    have "\<lfloor>x\<rfloor> \<le> \<lfloor>(2::rat) ^ 53\<rfloor>" using x(2) by (rule floor_mono)
    moreover have "\<lfloor>(2::rat) ^ 53\<rfloor> = 2 ^ 53" by simp
    ultimately have "\<lfloor>x\<rfloor> \<le> 2 ^ 53" by (simp only:)
    moreover have "(2::int) ^ 53 < 2 ^ 54" by simp
    ultimately have "\<lfloor>x\<rfloor> < int (2 ^ 54)" by simp
    moreover have "0 \<le> \<lfloor>x\<rfloor>" using True by simp
    ultimately have "nat \<lfloor>x\<rfloor> < 2 ^ 54" by (simp only: nat_less_iff)
    then have "bit_length (nat \<lfloor>x\<rfloor>) \<le> 54" by (rule bit_length_le)
    then show ?thesis using True by (simp add: floor_log2_def)
  next
    case False
    then show ?thesis by (simp add: floor_log2_def)
  qed
qed

lemma pow2_pos: "0 < pow2 e"
  by (simp add: pow2_def)

lemma pow2_le_2: "e \<le> 1 \<Longrightarrow> pow2 e \<le> 2"
proof -
  assume e: "e \<le> 1"
  show ?thesis
  proof (cases "0 \<le> e")
    case True
    then have "e = 0 \<or> e = 1" using e by linarith
    then show ?thesis by (auto simp: pow2_def)
  next
    case False
    have "(1::rat) \<le> 2 ^ nat (- e)" by simp
    then have "1 / 2 ^ nat (- e) \<le> (1::rat)" by (simp add: divide_le_eq)
    moreover have "pow2 e = 1 / 2 ^ nat (- e)" using False by (simp add: pow2_def)
    ultimately show ?thesis by linarith
  qed
qed

lemma fl_bound: "\<bar>x\<bar> \<le> 2 ^ 53 \<Longrightarrow> \<bar>fl x\<bar> \<le> 2 ^ 53 + 1"
proof (cases "x = 0")
  case True
  then show ?thesis by (simp add: fl_def)
next
  case False
  assume b: "\<bar>x\<bar> \<le> 2 ^ 53"
  define q where "q = pow2 (max (floor_log2 \<bar>x\<bar> - 52) (- 1074))"
  have "floor_log2 \<bar>x\<bar> \<le> 53" using False b by (intro floor_log2_le) simp_all
  then have q2: "q \<le> 2" unfolding q_def by (intro pow2_le_2) simp
  have q0: "0 < q" unfolding q_def by (rule pow2_pos)
  have f: "fl x = of_int (round_half_even (x / q)) * q"
    using False by (simp add: fl_def q_def Let_def)
  have "\<bar>of_int (round_half_even (x / q)) - x / q\<bar> \<le> 1 / 2" by (rule round_half_even_close)
  then have m: "\<bar>of_int (round_half_even (x / q)) - x / q\<bar> * q \<le> 1 / 2 * q"
    using q0 by (intro mult_right_mono) simp_all
  have eq: "of_int (round_half_even (x / q)) * q - x = (of_int (round_half_even (x / q)) - x / q) * q"
    using q0 by (simp add: left_diff_distrib)
  have "\<bar>of_int (round_half_even (x / q)) * q - x\<bar> =
        \<bar>of_int (round_half_even (x / q)) - x / q\<bar> * q"
    unfolding eq using q0 by (simp add: abs_mult)
  then have "\<bar>of_int (round_half_even (x / q)) * q - x\<bar> \<le> q / 2"
    using m by simp
  then have "\<bar>fl x - x\<bar> \<le> 1" using q2 f by simp
  then show ?thesis using b by linarith
qed

lemma round_half_even_nonneg: "0 \<le> y \<Longrightarrow> 0 \<le> round_half_even y"
  by (simp add: round_half_even_def Let_def)

lemma fl_nonneg: "0 \<le> x \<Longrightarrow> 0 \<le> fl x"
proof (cases "x = 0")
  case True
  then show ?thesis by (simp add: fl_def)
next
  case False
  assume x: "0 \<le> x"
  define q where "q = pow2 (max (floor_log2 \<bar>x\<bar> - 52) (- 1074))"
  have q0: "0 < q" unfolding q_def by (rule pow2_pos)
  then have "0 \<le> x / q" using x by simp
  then have "0 \<le> round_half_even (x / q)" by (rule round_half_even_nonneg)
  then have "0 \<le> rat_of_int (round_half_even (x / q)) * q" using q0 by simp
  then show ?thesis using False by (simp add: fl_def q_def Let_def)
qed

lemma bit_length_pow2: "bit_length (2 ^ n) = Suc n"
proof (induction n)
  case 0
  have "bit_length (Suc 0) = Suc (bit_length 0)" by (subst bit_length.simps) simp
  also have "bit_length 0 = 0" by (subst bit_length.simps) simp
  finally show ?case by simp
next
  case (Suc n)
  have "bit_length (2 ^ Suc n) = Suc (bit_length (2 ^ Suc n div 2))"
    by (subst bit_length.simps) simp
  then show ?case using Suc by simp
qed

lemma floor_log2_pow2: "floor_log2 (2 ^ n) = int n"
  by (simp add: floor_log2_def bit_length_pow2 nat_power_eq)

lemma fl_pow2: assumes "52 \<le> n" shows "fl (2 ^ n) = 2 ^ n"
proof -
  have q: "pow2 (max (floor_log2 \<bar>2 ^ n\<bar> - 52) (- 1074)) = 2 ^ (n - 52)"
    using assms by (simp add: floor_log2_pow2 pow2_def nat_diff_distrib)
  have d: "(2::rat) ^ n / 2 ^ (n - 52) = 2 ^ 52"
    using assms by (simp add: power_diff)
  have r: "round_half_even ((2::rat) ^ 52) = 2 ^ 52" by (simp add: round_half_even_def)
  have "n = 52 + (n - 52)" using assms by simp
  then have "(2::rat) ^ n = 2 ^ (52 + (n - 52))" by (rule arg_cong)
  then have m: "(2::rat) ^ 52 * 2 ^ (n - 52) = 2 ^ n" by (simp only: power_add)
  have nz: "(2::rat) ^ n \<noteq> 0" by simp
  have "fl (2 ^ n) = rat_of_int (round_half_even (2 ^ n / 2 ^ (n - 52))) * 2 ^ (n - 52)"
    unfolding fl_def Let_def q using nz by (simp only: if_False)
  also have "\<dots> = rat_of_int (2 ^ 52) * 2 ^ (n - 52)" by (simp only: d r)
  also have "\<dots> = 2 ^ 52 * 2 ^ (n - 52)" by (simp only: of_int_power of_int_numeral)
  also have "\<dots> = 2 ^ n" by (rule m)
  finally show ?thesis .
qed

text \<open>
  Rounding to two decimals on doubles: 300 / 3 stays 100; the double nearest to 1/40 lies
  above 0.025 and goes to 0.03, where the exact quotient would be a tie and go to 0.02.
\<close>

lemma round2_100: "round2 (fl (300 / 3)) = 100"
  by code_simp

lemma round2_fortieth: "round2 (fl (1 / 40)) = 1080863910568919 / 36028797018963968"
  by code_simp

text \<open>
  The duration of 1.5 s is 1500 ms; that of 1.001 s is 1000 ms, the float product being
  just below 1001.
\<close>

lemma duration_between_example: "duration_between 0 1500000 = 1500"
  by code_simp

lemma duration_between_truncates: "duration_between 0 1001000 = 1000"
  by code_simp

lemma duration_between_nonneg: "s \<le> e \<Longrightarrow> 0 \<le> duration_between s e"
proof -
  assume "s \<le> e"
  then have "(0::rat) \<le> of_int (e - s) / 1000000" by simp
  then have "0 \<le> fl (of_int (e - s) / 1000000)" by (rule fl_nonneg)
  then have "0 \<le> fl (of_int (e - s) / 1000000) * 1000" by simp
  then have "0 \<le> fl (fl (of_int (e - s) / 1000000) * 1000)" by (rule fl_nonneg)
  then show ?thesis by (simp add: duration_between_def py_int_def)
qed

section \<open>Properties of the interaction log\<close>

lemma parse_lines_append: "parse_lines (xs @ ys) = parse_lines xs @ parse_lines ys"
  by (induction xs rule: parse_lines.induct) auto

lemma entries_of_append: "entries_of (xs @ ys) = entries_of xs @ entries_of ys"
  by (induction xs rule: entries_of.induct) auto

lemma has_non_object_append:
  "has_non_object (xs @ ys) \<longleftrightarrow> has_non_object xs \<or> has_non_object ys"
  by (induction xs rule: has_non_object.induct) auto

lemma length_filter_not:
  "int (length (filter (\<lambda>e. \<not> P e) xs)) = int (length xs) - int (length (filter P xs))"
  by (induction xs) auto

lemma scan_stats_char:
  "scan_stats acc ls =
     (if has_non_object ls then Inl attribute_error
      else Inr \<lparr>total = total acc + int (length (entries_of ls)),
                successful = successful acc + int (length (filter le_success (entries_of ls))),
                failed = failed acc + int (length (filter (\<lambda>e. \<not> le_success e) (entries_of ls))),
                total_duration = total_duration acc + sum_list (map le_duration_ms (entries_of ls))\<rparr>)"
  by (induction acc ls rule: scan_stats.induct) auto

lemma stats_of_lines_char:
  "stats_of_lines ls =
     (if has_non_object ls \<or> average_overflows (entries_of ls) then zero_stats
      else expected_stats (entries_of ls))"
  by (cases "entries_of ls")
     (simp_all add: stats_of_lines_def scan_stats_char length_filter_not int_true_div_def
       Let_def average_overflows_def expected_stats_def float_average_def)

lemma sum_list_bound:
  "list_all (\<lambda>e. \<bar>le_duration_ms e\<bar> \<le> B) es \<Longrightarrow>
     \<bar>sum_list (map le_duration_ms es)\<bar> \<le> int (length es) * B"
  by (induction es) (auto simp: algebra_simps)

lemma bounded_average_no_overflow:
  assumes "list_all (\<lambda>e. \<bar>le_duration_ms e\<bar> \<le> 2 ^ 53) es"
  shows "\<not> average_overflows es"
proof (cases "es = []")
  case True
  then show ?thesis by (simp add: average_overflows_def)
next
  case False
  let ?s = "sum_list (map le_duration_ms es)"
  let ?n = "int (length es)"
  have n: "0 < ?n" using False by simp
  have "\<bar>?s\<bar> \<le> ?n * 2 ^ 53" using assms by (rule sum_list_bound)
  then have "(of_int \<bar>?s\<bar> :: rat) \<le> of_int (?n * 2 ^ 53)" by (simp only: of_int_le_iff)
  then have "\<bar>of_int ?s :: rat\<bar> \<le> of_int ?n * 2 ^ 53" by simp
  then have "\<bar>of_int ?s :: rat\<bar> / of_int ?n \<le> 2 ^ 53"
    using n by (simp add: divide_le_eq mult.commute)
  then have "\<bar>of_int ?s / of_int ?n :: rat\<bar> \<le> 2 ^ 53" using n by simp
  then have "\<bar>float_average es\<bar> \<le> 2 ^ 53 + 1"
    unfolding float_average_def by (rule fl_bound)
  moreover have "(2::rat) ^ 53 + 1 < 2 ^ 1024" by simp
  ultimately show ?thesis by (simp add: average_overflows_def)
qed

lemma round2_nearest_disj:
  "\<exists>k. round2 y = fl (of_int k / 100)
       \<and> (\<bar>of_int k / 100 - y\<bar> < 1 / 200 \<or> \<bar>of_int k / 100 - y\<bar> = 1 / 200 \<and> even k)"
  using round2_nearest [of y] by (metis order_le_less)

lemma append_all_Content:
  "append_all (Content ls) calls = Content (ls @ map (\<lambda>(p, d). Entry (make_log_entry p d)) calls)"
  unfolding append_all_def
  by (induction calls arbitrary: ls) (auto simp: log_interaction_def)

lemma append_all_Absent:
  "append_all Absent calls =
     (if calls = [] then Absent else Content (map (\<lambda>(p, d). Entry (make_log_entry p d)) calls))"
proof (cases calls)
  case Nil
  then show ?thesis by (simp add: append_all_def)
next
  case (Cons c cs)
  obtain p d where c: "c = (p, d)" by (cases c)
  have "append_all Absent calls = append_all (Content [Entry (make_log_entry p d)]) cs"
    by (simp add: Cons c append_all_def log_interaction_def)
  then show ?thesis by (simp add: append_all_Content Cons c)
qed

lemma append_all_Truncated:
  "append_all (Truncated ls l) ((p, d) # calls) =
     Content (ls @ (if blank_line l then Entry (make_log_entry p d) else Glued l (make_log_entry p d))
                # map (\<lambda>(p, d). Entry (make_log_entry p d)) calls)"
proof -
  have "append_all (Truncated ls l) ((p, d) # calls) =
          append_all (log_interaction True (Truncated ls l) p d) calls"
    by (simp add: append_all_def)
  then show ?thesis
    by (simp add: log_interaction_def append_all_Content)
qed

lemma entries_of_appended:
  "entries_of (map (\<lambda>(p, d). Entry (make_log_entry p d)) calls) =
     map (\<lambda>(p, d). make_log_entry p d) calls"
  by (induction calls) auto

lemma has_non_object_appended:
  "\<not> has_non_object (map (\<lambda>(p, d). Entry (make_log_entry p d)) calls)"
  by (induction calls) auto

lemma get_log_stats_example:
  "get_log_stats
     (append_all Absent
        [(''a'', sample_result 100 True), (''b'', sample_result 200 True),
         (''c'', sample_result 0 False)]) =
   \<lparr>total_interactions = 3, successful_interactions = 2, failed_interactions = 1,
    average_duration_ms = 100\<rparr>"
proof -
  let ?es = "[make_log_entry ''a'' (sample_result 100 True),
              make_log_entry ''b'' (sample_result 200 True),
              make_log_entry ''c'' (sample_result 0 False)]"
  have "list_all (\<lambda>e. \<bar>le_duration_ms e\<bar> \<le> 2 ^ 53) ?es"
    by (simp add: make_log_entry_def sample_result_def)
  then have no: "\<not> average_overflows ?es" by (rule bounded_average_no_overflow)
  have avg: "float_average ?es = fl (300 / 3)"
    by (simp add: float_average_def make_log_entry_def sample_result_def)
  have "expected_stats ?es =
     \<lparr>total_interactions = 3, successful_interactions = 2, failed_interactions = 1,
      average_duration_ms = 100\<rparr>"
    unfolding expected_stats_def avg round2_100
    by (simp add: make_log_entry_def sample_result_def)
  then show ?thesis
    using no by (simp add: get_log_stats_def append_all_Absent stats_of_lines_char)
qed

lemma get_log_stats_fortieth:
  "average_duration_ms
     (get_log_stats
        (append_all Absent
           (replicate 39 (''a'', sample_result 0 True) @ [(''b'', sample_result 1 True)]))) =
   1080863910568919 / 36028797018963968"
proof -
  let ?calls = "replicate 39 (''a'', sample_result 0 True) @ [(''b'', sample_result 1 True)]"
  let ?es = "map (\<lambda>(p, d). make_log_entry p d) ?calls"
  have d: "map le_duration_ms ?es = replicate 39 0 @ [1]"
    by (simp add: make_log_entry_def sample_result_def)
  have s: "sum_list (map le_duration_ms ?es) = 1"
    unfolding d by (simp add: sum_list_replicate)
  have "list_all (\<lambda>e. \<bar>le_duration_ms e\<bar> \<le> 2 ^ 53) ?es"
    by (simp add: make_log_entry_def sample_result_def list_all_iff)
  then have no: "\<not> average_overflows ?es" by (rule bounded_average_no_overflow)
  have "float_average ?es = fl (1 / 40)"
    unfolding float_average_def s by simp
  then have "average_duration_ms (expected_stats ?es) = round2 (fl (1 / 40))"
    by (simp add: expected_stats_def)
  then show ?thesis
    using no
    by (simp add: get_log_stats_def append_all_Absent stats_of_lines_char entries_of_appended
        has_non_object_appended round2_fortieth del: map_append replicate.simps)
qed

lemma get_log_stats_overflow:
  "get_log_stats (append_all Absent [(''a'', sample_result (2 ^ 1024) True)]) = zero_stats"
proof -
  let ?e = "make_log_entry ''a'' (sample_result (2 ^ 1024) True)"
  have a: "float_average [?e] = fl (2 ^ 1024)"
    by (simp add: float_average_def make_log_entry_def sample_result_def)
  have f: "fl (2 ^ 1024) = 2 ^ 1024" by (rule fl_pow2) simp
  have "average_overflows [?e]"
    unfolding average_overflows_def a f by simp
  then show ?thesis
    by (simp add: get_log_stats_def append_all_Absent stats_of_lines_char)
qed

text \<open>
  Claim C5. The claim says that after appending N entries of which S are successful,
  \<^verbatim>\<open>get_log_stats\<close> returns total N, successful S, failed N - S and the average duration
  rounded to two decimals. On a file whose lines all end with a newline, with N and S
  counting the entries among the lines, \<^verbatim>\<open>get_log_stats\<close> returns these, the average being
  the float quotient of the sum of the durations by N, rounded to the nearest multiple of
  1/100 (a tie of the float going to the even multiple) and taken as a float, or 0 when
  N = 0; and it returns all zeros when some line parses to a value that is not a
  dictionary or when the quotient overflows, which it cannot when every duration is at
  most \<open>2 ^ 53\<close> in magnitude. A line that does not parse changes nothing; appending to
  such a file adds exactly the entries appended; an absent, unreadable or empty file gives
  all zeros; a last line without a newline is read like any other line; appending durations 100, 200, 0 with success flags true, true, false gives 3, 2, 1 and
  the average 100; and 40 entries whose durations sum to 1 have the average 0.03 as a
  double.
\<close>

theorem get_log_stats_counts:
  "get_log_stats (Content ls) =
     (if has_non_object ls \<or> average_overflows (entries_of ls) then zero_stats
      else expected_stats (entries_of ls))
   \<and> (list_all (\<lambda>e. \<bar>le_duration_ms e\<bar> \<le> 2 ^ 53) es \<longrightarrow> \<not> average_overflows es)
   \<and> (\<exists>k. round2 (float_average es) = fl (of_int k / 100)
          \<and> (\<bar>of_int k / 100 - float_average es\<bar> < 1 / 200
              \<or> \<bar>of_int k / 100 - float_average es\<bar> = 1 / 200 \<and> even k))
   \<and> entries_of (ls @ [Unparseable junk] @ ls') = entries_of (ls @ ls')
   \<and> (has_non_object (ls @ [Unparseable junk] @ ls') \<longleftrightarrow> has_non_object (ls @ ls'))
   \<and> append_all (Content ls) calls =
       Content (ls @ map (\<lambda>(p, d). Entry (make_log_entry p d)) calls)
   \<and> entries_of (map (\<lambda>(p, d). Entry (make_log_entry p d)) calls) =
       map (\<lambda>(p, d). make_log_entry p d) calls
   \<and> \<not> has_non_object (map (\<lambda>(p, d). Entry (make_log_entry p d)) calls)
   \<and> get_log_stats Absent = zero_stats
   \<and> get_log_stats (Unreadable x) = zero_stats
   \<and> get_log_stats (Content []) = zero_stats
   \<and> get_log_stats (Truncated ls l) = get_log_stats (Content (ls @ [l]))
   \<and> get_log_stats
        (append_all Absent
           [(''a'', sample_result 100 True), (''b'', sample_result 200 True),
            (''c'', sample_result 0 False)]) =
      \<lparr>total_interactions = 3, successful_interactions = 2, failed_interactions = 1,
       average_duration_ms = 100\<rparr>
   \<and> average_duration_ms
        (get_log_stats
           (append_all Absent
              (replicate 39 (''a'', sample_result 0 True) @ [(''b'', sample_result 1 True)]))) =
      1080863910568919 / 36028797018963968"
proof -
  have 1: "get_log_stats (Content ls) =
     (if has_non_object ls \<or> average_overflows (entries_of ls) then zero_stats
      else expected_stats (entries_of ls))"
    by (simp add: get_log_stats_def stats_of_lines_char)
  have 2: "list_all (\<lambda>e. \<bar>le_duration_ms e\<bar> \<le> 2 ^ 53) es \<longrightarrow> \<not> average_overflows es"
    using bounded_average_no_overflow by blast
  have 4: "entries_of (ls @ [Unparseable junk] @ ls') = entries_of (ls @ ls')"
    by (simp add: entries_of_append)
  have 5: "has_non_object (ls @ [Unparseable junk] @ ls') \<longleftrightarrow> has_non_object (ls @ ls')"
    by (simp add: has_non_object_append)
  have 9: "get_log_stats Absent = zero_stats" by (simp add: get_log_stats_def)
  have 10: "get_log_stats (Unreadable x) = zero_stats" by (simp add: get_log_stats_def)
  have 11: "get_log_stats (Content []) = zero_stats"
    by (simp add: get_log_stats_def stats_of_lines_char expected_stats_def zero_stats_def)
  have 12: "get_log_stats (Truncated ls l) = get_log_stats (Content (ls @ [l]))"
    by (simp add: get_log_stats_def)
  show ?thesis
    using 1 2 round2_nearest_disj [of "float_average es"] 4 5 append_all_Content [of ls calls]
      entries_of_appended [of calls] has_non_object_appended [of calls] 9 10 11 12
      get_log_stats_example get_log_stats_fortieth
    by (intro conjI)
qed

theorem get_log_stats_counts_witness:
  "list_all (\<lambda>e. \<bar>le_duration_ms e\<bar> \<le> 2 ^ 53)
     [make_log_entry ''a'' (sample_result 100 True), make_log_entry ''b'' (sample_result 50 False)]
   \<and> \<not> average_overflows
       [make_log_entry ''a'' (sample_result 100 True), make_log_entry ''b'' (sample_result 50 False)]
   \<and> get_log_stats
       (Content [Entry (make_log_entry ''a'' (sample_result 100 True)), Unparseable ''{'',
          Entry (make_log_entry ''b'' (sample_result 50 False))]) =
     \<lparr>total_interactions = 2, successful_interactions = 1, failed_interactions = 1,
      average_duration_ms = 75\<rparr>"
proof -
  let ?a = "make_log_entry ''a'' (sample_result 100 True)"
  let ?b = "make_log_entry ''b'' (sample_result 50 False)"
  note t = get_log_stats_counts
      [where ls = "[Entry ?a, Unparseable ''{'', Entry ?b]" and es = "[?a, ?b]"]
  have bound: "list_all (\<lambda>e. \<bar>le_duration_ms e\<bar> \<le> 2 ^ 53) [?a, ?b]"
    by (simp add: make_log_entry_def sample_result_def)
  have no: "\<not> average_overflows [?a, ?b]"
    using t [THEN conjunct2, THEN conjunct1] bound by (rule mp)
  have r: "round2 (fl (150 / 2)) = 75" by code_simp
  have avg: "float_average [?a, ?b] = fl (150 / 2)"
    by (simp add: float_average_def make_log_entry_def sample_result_def)
  have "expected_stats [?a, ?b] =
     \<lparr>total_interactions = 2, successful_interactions = 1, failed_interactions = 1,
      average_duration_ms = 75\<rparr>"
    unfolding expected_stats_def avg r by (simp add: make_log_entry_def sample_result_def)
  then have "get_log_stats (Content [Entry ?a, Unparseable ''{'', Entry ?b]) =
     \<lparr>total_interactions = 2, successful_interactions = 1, failed_interactions = 1,
      average_duration_ms = 75\<rparr>"
    using t [THEN conjunct1] no by simp
  then show ?thesis using bound no by (intro conjI)
qed

text \<open>
  All zeros instead of the counts: one appended entry whose duration is \<open>2 ^ 1024\<close>, whose
  quotient overflows; an entry appended to a file holding the line \<^verbatim>\<open>42\<close>; and an entry
  appended after a broken last line without a newline, onto which it is written.
\<close>

theorem get_log_stats_zeros_counterexample:
  "get_log_stats (append_all Absent [(''a'', sample_result (2 ^ 1024) True)]) = zero_stats
   \<and> total_interactions
       (get_log_stats (append_all Absent [(''a'', sample_result (2 ^ 1024) True)])) \<noteq> 1
   \<and> get_log_stats (append_all (Content [NonObject ''42'']) [(''a'', sample_result 100 True)]) =
       zero_stats
   \<and> get_log_stats
       (append_all (Truncated [] (Unparseable ''{'')) [(''a'', sample_result 100 True)]) =
       zero_stats"
proof -
  have a: "get_log_stats (append_all (Content [NonObject ''42'']) [(''a'', sample_result 100 True)]) =
       zero_stats"
    by (simp add: append_all_Content get_log_stats_def stats_of_lines_char)
  have b: "get_log_stats
       (append_all (Truncated [] (Unparseable ''{'')) [(''a'', sample_result 100 True)]) =
       zero_stats"
    by (simp add: append_all_Truncated get_log_stats_def stats_of_lines_char isspace_def
        expected_stats_def zero_stats_def average_overflows_def)
  show ?thesis
    using get_log_stats_overflow a b by (simp add: zero_stats_def)
qed

lemma py_slice_tail:
  "0 < limit \<Longrightarrow> limit < int (length xs) \<Longrightarrow>
     py_slice_from xs (- limit) = drop (length xs - nat limit) xs"
  by (simp add: py_slice_from_def nat_diff_distrib')


lemma get_recent_logs_Truncated:
  "get_recent_logs (Truncated ls l) limit = get_recent_logs (Content (ls @ [l])) limit"
  by (simp add: get_recent_logs_def Let_def)

lemma get_recent_logs_Content:
  "0 < limit \<Longrightarrow>
     get_recent_logs (Content ls) limit = parse_lines (drop (length ls - nat limit) ls)"
  by (auto simp: get_recent_logs_def py_slice_tail)



text \<open>
  Claim C10. With limit 0, \<^verbatim>\<open>get_recent_logs\<close> returns every entry of the file that parses,
  so the result is not empty when the file holds such an entry; the bound of at most
  \<open>limit\<close> entries holds for a positive limit and fails for limit 0.
\<close>

theorem get_recent_logs_zero_limit:
  "get_recent_logs (Content ls) 0 = parse_lines ls
   \<and> (parse_lines ls \<noteq> [] \<longrightarrow> get_recent_logs (Content ls) 0 \<noteq> [])
   \<and> (0 < limit \<longrightarrow> length (get_recent_logs file limit) \<le> nat limit)
   \<and> \<not> length (get_recent_logs (Content [Entry e]) 0) \<le> nat 0"
proof -
  have z: "get_recent_logs (Content ls) 0 = parse_lines ls" for ls
    by (simp add: get_recent_logs_def py_slice_from_def)
  have len: "length (parse_lines xs) \<le> length xs" for xs
    by (induction xs rule: parse_lines.induct) auto
  have bc: "length (get_recent_logs (Content ls) limit) \<le> nat limit" if "0 < limit" for ls
  proof -
    have "length (parse_lines (drop (length ls - nat limit) ls)) \<le> length (drop (length ls - nat limit) ls)"
      by (rule len)
    also have "\<dots> \<le> nat limit" by simp
    finally show ?thesis using that by (simp add: get_recent_logs_Content)
  qed
  have b: "length (get_recent_logs file limit) \<le> nat limit" if "0 < limit"
  proof (cases "file")
    case (Content ls)
    then show ?thesis using bc that by simp
  next
    case (Truncated ls l)
    then show ?thesis using bc [of "ls @ [l]"] that by (simp add: get_recent_logs_Truncated)
  qed (simp_all add: get_recent_logs_def)
  show ?thesis using z b by simp
qed

theorem get_recent_logs_zero_limit_witness:
  "parse_lines
     [Entry (make_log_entry ''a'' (sample_result 1 True)), Unparseable ''{'',
      Entry (make_log_entry ''b'' (sample_result 2 False))] \<noteq> []
   \<and> get_recent_logs
       (Content [Entry (make_log_entry ''a'' (sample_result 1 True)), Unparseable ''{'',
          Entry (make_log_entry ''b'' (sample_result 2 False))]) 0 =
     [EntryObject (make_log_entry ''a'' (sample_result 1 True)),
      EntryObject (make_log_entry ''b'' (sample_result 2 False))]
   \<and> (0::int) < 1
   \<and> length (get_recent_logs
       (Content [Entry (make_log_entry ''a'' (sample_result 1 True)), Unparseable ''{'',
          Entry (make_log_entry ''b'' (sample_result 2 False))]) 1) \<le> nat 1"
  using get_recent_logs_zero_limit
    [of "[Entry (make_log_entry ''a'' (sample_result 1 True)), Unparseable ''{'',
          Entry (make_log_entry ''b'' (sample_result 2 False))]" 1
      "Content [Entry (make_log_entry ''a'' (sample_result 1 True)), Unparseable ''{'',
          Entry (make_log_entry ''b'' (sample_result 2 False))]"
      "make_log_entry ''a'' (sample_result 1 True)"]
  by simp

section \<open>Properties of the fallback text\<close>

text \<open>
  Claim C8. The fallback text is the canned sentence of the first keyword, in the order
  hello, what, how, why, explain, that occurs in the lowercased prompt, and the generic
  apology when none occurs. It is a function of the prompt alone: the clock, the model
  name and the reason do not enter, so two calls with the same prompt give the same text.
\<close>

theorem fallback_text_first_keyword:
  "fallback_text_of p = fallback_text_spec p
   \<and> map fst fallback_responses = [''hello'', ''what'', ''how'', ''why'', ''explain'']
   \<and> response (get_fallback_response now p m r) = fallback_text_of p
   \<and> response (get_fallback_response now p m r) = response (get_fallback_response now' p m' r')
   \<and> token (get_fallback_stream_response p m r) = fallback_text_of p
   \<and> fallback_text_of ''What? HELLO'' = canned_sentence ''hello''
   \<and> fallback_text_of ''nothing to match'' = generic_fallback"
proof -
  have 1: "fallback_text_of p = fallback_text_spec p"
    by (simp add: fallback_text_of_def fallback_text_spec_def fallback_responses_def str_in_def
        canned_sentence_def)
  have 2: "map fst fallback_responses = [''hello'', ''what'', ''how'', ''why'', ''explain'']"
    by (simp add: fallback_responses_def)
  have 3: "fallback_text_of ''What? HELLO'' = canned_sentence ''hello''"
    by code_simp
  have 4: "fallback_text_of ''nothing to match'' = generic_fallback"
    by code_simp
  show ?thesis
    using 1 2 3 4 by (simp add: get_fallback_response_def get_fallback_stream_response_def)
qed

section \<open>Properties of \<^verbatim>\<open>generate_response\<close>\<close>

lemma is_available_total: "\<exists>a. is_available b = Inr a"
  by (cases "tags_probe b") (auto simp: is_available_def try_except_def)

lemma get_available_models_total: "\<exists>ms. get_available_models b = Inr ms"
  by (simp add: get_available_models_def try_except_def split: sum.splits prod.splits)

lemma generate_call_cases:
  "generate_call b p mn =
     (case generate_post b of
        Inl (Timeout x) \<Rightarrow> Inr (get_fallback_response (t_fallback b) p mn ''Request timeout'')
      | Inl e \<Rightarrow> Inr (get_fallback_response (t_fallback b) p mn (str_exn e))
      | Inr (status_code, body) \<Rightarrow>
          if status_code \<noteq> 200
          then Inr (get_fallback_response (t_fallback b) p mn (''API error: '' @ str_int status_code))
          else (case body of
                  Inl (Timeout x) \<Rightarrow> Inr (get_fallback_response (t_fallback b) p mn ''Request timeout'')
                | Inl e \<Rightarrow> Inr (get_fallback_response (t_fallback b) p mn (str_exn e))
                | Inr resp \<Rightarrow>
                    Inr \<lparr>response = strip (case resp of None \<Rightarrow> [] | Some text \<Rightarrow> text),
                         model = mn, timestamp = t_end b,
                         duration_ms = duration_between (t_start b) (t_end b),
                         success = True, error_reason = None\<rparr>))"
  by (simp add: generate_call_def try_except_def split: sum.splits prod.splits exn.splits)

lemma generate_response_cases:
  "generate_response svc b p m =
     (if is_available b = Inr True
      then generate_call b p (resolved_model svc b m)
      else Inr (get_fallback_response (t_fallback b) p (py_or m (default_model svc))
                  ''Ollama service unavailable''))"
  using is_available_total [of b] get_available_models_total [of b]
  by (auto simp: generate_response_def resolved_model_def Let_def split: list.splits)

lemma takeWhile_all: "list_all P (takeWhile P xs)"
  by (induction xs) auto

lemma strip_decomposition:
  "\<exists>pre post. s = pre @ strip s @ post \<and> list_all isspace pre \<and> list_all isspace post"
proof -
  let ?l = "dropWhile isspace s"
  have 1: "s = takeWhile isspace s @ ?l" by simp
  have 2: "rev ?l = takeWhile isspace (rev ?l) @ dropWhile isspace (rev ?l)" by simp
  have "rev (rev ?l) = rev (dropWhile isspace (rev ?l)) @ rev (takeWhile isspace (rev ?l))"
    using 2 by (metis rev_append)
  then have 3: "?l = strip s @ rev (takeWhile isspace (rev ?l))"
    by (simp only: rev_rev_ident strip_def rstrip_def lstrip_def)
  have "s = takeWhile isspace s @ strip s @ rev (takeWhile isspace (rev ?l))"
    using 1 3 by metis
  moreover have "list_all isspace (takeWhile isspace s)" by (rule takeWhile_all)
  moreover have "list_all isspace (rev (takeWhile isspace (rev ?l)))"
    using takeWhile_all [of isspace "rev ?l"] by (simp add: list_all_iff)
  ultimately show ?thesis by blast
qed

lemma strip_ends:
  "strip s \<noteq> [] \<Longrightarrow> \<not> isspace (hd (strip s)) \<and> \<not> isspace (last (strip s))"
proof -
  assume ne: "strip s \<noteq> []"
  let ?l = "dropWhile isspace s"
  let ?r = "dropWhile isspace (rev ?l)"
  have s: "strip s = rev ?r" by (simp add: strip_def rstrip_def lstrip_def)
  have rne: "?r \<noteq> []" using ne s by simp
  have a: "\<not> isspace (hd ?r)" using rne by (rule hd_dropWhile)
  have lne: "?l \<noteq> []" using rne by (metis dropWhile.simps(1) rev.simps(1))
  have b: "\<not> isspace (hd ?l)" using lne by (rule hd_dropWhile)
  have "last (strip s) = hd ?r" using rne s by (simp add: last_rev)
  moreover have "hd (strip s) = last ?r" using rne s by (simp add: hd_rev)
  moreover have "last ?r = last (rev ?l)"
    by (metis rne takeWhile_dropWhile_id last_appendR)
  moreover have "last (rev ?l) = hd ?l" using lne by (simp add: last_rev)
  ultimately show ?thesis using a b by simp
qed

text \<open>
  The branch that returns the reason \<^verbatim>\<open>No models available\<close> is never taken: it sits under
  a condition that already requires the list of models to be non-empty.
\<close>

lemma empty_model_list_calls_backend:
  "is_available b = Inr True \<Longrightarrow> get_available_models b = Inr [] \<Longrightarrow>
     generate_response svc b p m = generate_call b p (py_or m (default_model svc))"
  by (simp add: generate_response_def Let_def)

text \<open>
  Claim C4. The claim says that an available server with an empty list of models gives a
  fallback result with the reason \<^verbatim>\<open>No models available\<close> and no generation call. On this
  input the code issues the call and returns the server's answer with success true.
\<close>

theorem empty_model_list_still_generates:
  "generate_response svc0 (backend_ok\<lparr>tags_list := Inr (200, Inr [])\<rparr>) ''Hello'' None =
     Inr \<lparr>response = ''Hi'', model = ''llama2'', timestamp = 1500000, duration_ms = 1500,
          success = True, error_reason = None\<rparr>"
  by (simp add: generate_response_def generate_call_def is_available_def get_available_models_def
      try_except_def svc0_def backend_ok_def py_or_def duration_between_example strip_def rstrip_def
      lstrip_def isspace_def)

text \<open>
  Claim C9, as amended. When the server is available and the generation call returns
  status 200 with a body that decodes, the result has success true, the resolved model
  name, and the server's \<^verbatim>\<open>response\<close> text (the empty text when the key is absent) with
  the whitespace at both ends removed: the text is the result between two runs of
  whitespace.
\<close>

theorem generate_response_200:
  "is_available b = Inr True \<Longrightarrow> generate_post b = Inr (200, Inr resp) \<Longrightarrow>
     generate_response svc b p m =
       Inr \<lparr>response = strip (case resp of None \<Rightarrow> [] | Some text \<Rightarrow> text),
            model = resolved_model svc b m,
            timestamp = t_end b,
            duration_ms = duration_between (t_start b) (t_end b),
            success = True,
            error_reason = None\<rparr>
     \<and> (\<exists>pre post. (case resp of None \<Rightarrow> [] | Some text \<Rightarrow> text) =
            pre @ strip (case resp of None \<Rightarrow> [] | Some text \<Rightarrow> text) @ post
          \<and> list_all isspace pre \<and> list_all isspace post)"
  using strip_decomposition [of "case resp of None \<Rightarrow> [] | Some text \<Rightarrow> text"]
  by (simp add: generate_response_cases generate_call_cases)

theorem generate_response_200_witness:
  "is_available (backend_ok\<lparr>generate_post := Inr (200, Inr (Some ''  Hi  ''))\<rparr>) = Inr True
   \<and> generate_response svc0 (backend_ok\<lparr>generate_post := Inr (200, Inr (Some ''  Hi  ''))\<rparr>)
       ''Hello'' None =
     Inr \<lparr>response = ''Hi'', model = ''llama2'', timestamp = 1500000, duration_ms = 1500,
          success = True, error_reason = None\<rparr>"
  using generate_response_200 [of "backend_ok\<lparr>generate_post := Inr (200, Inr (Some ''  Hi  ''))\<rparr>"
      "Some ''  Hi  ''" svc0 "''Hello''" None]
  by (simp add: is_available_def get_available_models_def resolved_model_def
      try_except_def svc0_def backend_ok_def py_or_def duration_between_example strip_def rstrip_def
      lstrip_def isspace_def)

text \<open>
  Claim C9 as stated fails: leading whitespace is removed as well, so the result is not
  the server's text with only the trailing whitespace trimmed.
\<close>

theorem leading_whitespace_counterexample:
  "generate_response svc0 (backend_ok\<lparr>generate_post := Inr (200, Inr (Some ''  Hi  ''))\<rparr>)
       ''Hello'' None =
     Inr \<lparr>response = ''Hi'', model = ''llama2'', timestamp = 1500000, duration_ms = 1500,
          success = True, error_reason = None\<rparr>
   \<and> rstrip ''  Hi  '' = ''  Hi''
   \<and> ''Hi'' \<noteq> rstrip ''  Hi  ''"
  by (simp add: generate_response_def generate_call_def is_available_def get_available_models_def
      try_except_def svc0_def backend_ok_def py_or_def duration_between_example strip_def rstrip_def
      lstrip_def isspace_def)

text \<open>
  Claim C7, as amended. \<^verbatim>\<open>generate_response\<close> always returns a result. Its duration is not
  negative when the clock after the call is not earlier than the clock before it. A
  result with success false carries an error reason, and that reason is not empty when
  the exception of the generation call, if any, has a description that is not empty. A
  result with success true carries no error reason.
\<close>

theorem generate_response_wellformed:
  "\<exists>r. generate_response svc b p m = Inr r
     \<and> (t_start b \<le> t_end b \<longrightarrow> 0 \<le> duration_ms r)
     \<and> (\<not> success r \<longrightarrow> error_reason r \<noteq> None)
     \<and> (\<not> success r \<and> described b \<longrightarrow> (\<exists>reason. error_reason r = Some reason \<and> reason \<noteq> []))
     \<and> (success r \<longrightarrow> error_reason r = None)"
  by (auto simp: generate_response_cases generate_call_cases get_fallback_response_def
      duration_between_nonneg described_def call_exn_def
      split: sum.splits prod.splits exn.splits)

theorem generate_response_wellformed_witness:
  "t_start (backend_ok\<lparr>generate_post := Inl (OtherException ''Connection refused'')\<rparr>)
     \<le> t_end (backend_ok\<lparr>generate_post := Inl (OtherException ''Connection refused'')\<rparr>)
   \<and> described (backend_ok\<lparr>generate_post := Inl (OtherException ''Connection refused'')\<rparr>)
   \<and> (\<exists>r. generate_response svc0
            (backend_ok\<lparr>generate_post := Inl (OtherException ''Connection refused'')\<rparr>)
            ''Hello'' None = Inr r
        \<and> \<not> success r \<and> 0 \<le> duration_ms r
        \<and> error_reason r = Some ''Connection refused'')"
  using generate_response_wellformed
    [of svc0 "backend_ok\<lparr>generate_post := Inl (OtherException ''Connection refused'')\<rparr>"
      "''Hello''" None]
  by (simp add: generate_response_cases generate_call_cases get_fallback_response_def
      is_available_def try_except_def backend_ok_def described_def call_exn_def)

text \<open>
  Claim C7 as stated fails: an exception other than a timeout whose description is the
  empty string gives success false with an empty error reason.
\<close>

theorem empty_error_reason_counterexample:
  "generate_response svc0 (backend_ok\<lparr>generate_post := Inl (OtherException [])\<rparr>) ''Hello'' None =
     Inr \<lparr>response = canned_sentence ''hello'', model = ''llama2 (fallback)'',
          timestamp = 1500000, duration_ms = 0, success = False, error_reason = Some []\<rparr>
   \<and> t_start (backend_ok\<lparr>generate_post := Inl (OtherException [])\<rparr>)
       \<le> t_end (backend_ok\<lparr>generate_post := Inl (OtherException [])\<rparr>)"
proof -
  have "fallback_text_of ''Hello'' = canned_sentence ''hello''" by code_simp
  then show ?thesis
    by (simp add: generate_response_cases generate_call_cases get_fallback_response_def
      is_available_def get_available_models_def resolved_model_def try_except_def backend_ok_def
      svc0_def py_or_def)
qed

section \<open>Properties of \<^verbatim>\<open>generate_response_stream\<close>\<close>

lemma sent_tokens_Nil: "sent_tokens mn [] = []"
  by (simp add: sent_tokens_def)

lemma sent_tokens_Cons:
  "sent_tokens mn (l # ls) =
     (if line_token l \<noteq> [] then [token_chunk mn (line_token l) False] else []) @ sent_tokens mn ls"
  by (simp add: sent_tokens_def)

lemma iter_lines_char:
  "iter_lines b mn full ls =
     (case find ends_loop ls of
        None \<Rightarrow> (sent_tokens mn ls, None)
      | Some Blank \<Rightarrow> (sent_tokens mn (takeWhile (\<lambda>l. \<not> ends_loop l) ls), None)
      | Some (Raises e) \<Rightarrow> (sent_tokens mn (takeWhile (\<lambda>l. \<not> ends_loop l) ls), Some e)
      | Some (Obj tok dn) \<Rightarrow>
          (sent_tokens mn (takeWhile (\<lambda>l. \<not> ends_loop l) ls)
             @ (if tok \<noteq> [] then [token_chunk mn tok True] else [])
             @ [terminal_chunk b mn
                  (full @ concat (map line_token (takeWhile (\<lambda>l. \<not> ends_loop l) ls)) @ tok)],
           None))"
proof (induction ls arbitrary: full)
  case Nil
  show ?case by (simp add: sent_tokens_Nil)
next
  case (Cons l ls)
  show ?case
  proof (cases l)
    case Blank
    then show ?thesis
      by (simp add: Cons.IH sent_tokens_Cons split: option.splits stream_line.splits)
  next
    case (Raises e)
    then show ?thesis
      by (cases e) (simp_all add: Cons.IH sent_tokens_Cons sent_tokens_Nil
          split: option.splits stream_line.splits)
  next
    case (Obj tok dn)
    then show ?thesis
      by (cases dn) (auto simp: Cons.IH sent_tokens_Cons sent_tokens_Nil Let_def
          split: option.splits stream_line.splits)
  qed
qed

lemma stream_call_char:
  "stream_call b p mn =
     (case generate_stream_post b of
        Inl e \<Rightarrow> ([stream_handler p mn e], None)
      | Inr (status_code, body) \<Rightarrow>
          if status_code \<noteq> 200
          then ([get_fallback_stream_response p mn (''API error: '' @ str_int status_code)], None)
          else (case find ends_loop body of
                  None \<Rightarrow> (sent_tokens mn body, None)
                | Some Blank \<Rightarrow> (sent_tokens mn (takeWhile (\<lambda>l. \<not> ends_loop l) body), None)
                | Some (Raises e) \<Rightarrow>
                    (sent_tokens mn (takeWhile (\<lambda>l. \<not> ends_loop l) body)
                       @ [stream_handler p mn e], None)
                | Some (Obj tok dn) \<Rightarrow>
                    (sent_tokens mn (takeWhile (\<lambda>l. \<not> ends_loop l) body)
                       @ (if tok \<noteq> [] then [token_chunk mn tok True] else [])
                       @ [terminal_chunk b mn
                            (concat (map line_token (takeWhile (\<lambda>l. \<not> ends_loop l) body)) @ tok)],
                     None)))"
  by (simp add: stream_call_def iter_lines_char
      split: sum.splits prod.splits option.splits stream_line.splits)

lemma generate_response_stream_cases:
  "generate_response_stream svc b p m =
     (if is_available b = Inr True
      then stream_call b p (resolved_model svc b m)
      else ([get_fallback_stream_response p (py_or m (default_model svc))
               ''Ollama service unavailable''], None))"
  using is_available_total [of b] get_available_models_total [of b]
  by (auto simp: generate_response_stream_def resolved_model_def Let_def split: list.splits)

lemma find_ends_loop_None: "find ends_loop body = None \<Longrightarrow> takeWhile (\<lambda>l. \<not> ends_loop l) body = body"
  by (induction body) (auto split: if_splits)

lemma find_ends_loop_Blank: "find ends_loop body \<noteq> Some Blank"
  by (induction body) auto

text \<open>
  The chunks of a streaming request, in full: the token chunks of the lines read, then
  a fallback chunk, or the token chunk of the closing line (when it carries a token) and
  the terminal chunk, or nothing more when the body runs out.
\<close>

lemma generate_response_stream_char:
  "generate_response_stream svc b p m =
     (case stream_outcome b of
        Fallback reason \<Rightarrow>
          (sent_tokens (stream_model svc b m) (stream_prefix b)
             @ [get_fallback_stream_response p (stream_model svc b m) reason], None)
      | Done tok \<Rightarrow>
          (sent_tokens (stream_model svc b m) (stream_prefix b)
             @ (if tok \<noteq> [] then [token_chunk (stream_model svc b m) tok True] else [])
             @ [terminal_chunk b (stream_model svc b m)
                  (concat (map line_token (stream_prefix b)) @ tok)], None)
      | RunsOut \<Rightarrow> (sent_tokens (stream_model svc b m) (stream_prefix b), None))"
  using find_ends_loop_Blank
  by (auto simp: generate_response_stream_cases stream_call_char stream_outcome_def
      stream_prefix_def stream_model_def stream_handler_def sent_tokens_Nil find_ends_loop_None
      split: sum.splits prod.splits option.splits stream_line.splits exn.splits)

lemma sent_tokens_not_done: "filter chunk_done (sent_tokens mn ls) = []"
  by (induction ls) (auto simp: sent_tokens_Nil sent_tokens_Cons token_chunk_def)

lemma sent_tokens_all_not_done: "list_all (\<lambda>c. \<not> chunk_done c) (sent_tokens mn ls)"
  by (induction ls) (auto simp: sent_tokens_Nil sent_tokens_Cons token_chunk_def)

lemma sent_tokens_success: "list_all chunk_success (sent_tokens mn ls)"
  by (induction ls) (auto simp: sent_tokens_Nil sent_tokens_Cons token_chunk_def)

lemma sent_tokens_concat: "concat (map token (sent_tokens mn ls)) = concat (map line_token ls)"
  by (induction ls) (auto simp: sent_tokens_Nil sent_tokens_Cons token_chunk_def)

lemma list_all_butlast: "list_all P xs \<Longrightarrow> list_all P (butlast xs)"
  by (induction xs) auto

text \<open>
  Claim C3, as amended. Unless the body of a 200 answer runs out before a line with a
  true \<^verbatim>\<open>done\<close> or a line that raises, the sequence of chunks is not empty and its last
  chunk has \<^verbatim>\<open>done\<close> true; no chunk before the last two has \<^verbatim>\<open>done\<close> true; exactly one
  chunk has \<^verbatim>\<open>done\<close> true, except that there are two when the server's closing line
  carries a token; the last chunk has success true exactly when the stream closed on
  such a line; and the last chunk carries, on success, the concatenation of the tokens
  with the whitespace at both ends removed and, on failure, the fallback text, which is
  its own token.
\<close>

theorem stream_chunks_closed:
  assumes "stream_outcome b \<noteq> RunsOut"
    and "cs = fst (generate_response_stream svc b p m)"
  shows "cs \<noteq> []
     \<and> chunk_done (last cs)
     \<and> list_all (\<lambda>c. \<not> chunk_done c) (butlast (butlast cs))
     \<and> length (filter chunk_done cs) =
         (case stream_outcome b of Done tok \<Rightarrow> if tok = [] then 1 else 2 | _ \<Rightarrow> 1)
     \<and> chunk_success (last cs) = (case stream_outcome b of Done tok \<Rightarrow> True | _ \<Rightarrow> False)
     \<and> full_response (last cs) =
         Some (if chunk_success (last cs) then strip (concat (map token cs)) else token (last cs))"
proof (cases "stream_outcome b")
  case (Fallback reason)
  then have cs: "cs = sent_tokens (stream_model svc b m) (stream_prefix b)
             @ [get_fallback_stream_response p (stream_model svc b m) reason]"
    using assms(2) by (simp add: generate_response_stream_char)
  show ?thesis
    unfolding cs using Fallback
    by (simp add: sent_tokens_not_done get_fallback_stream_response_def butlast_append
        list_all_butlast sent_tokens_all_not_done)
next
  case (Done tok)
  then have cs: "cs = sent_tokens (stream_model svc b m) (stream_prefix b)
             @ (if tok \<noteq> [] then [token_chunk (stream_model svc b m) tok True] else [])
             @ [terminal_chunk b (stream_model svc b m)
                  (concat (map line_token (stream_prefix b)) @ tok)]"
    using assms(2) by (simp add: generate_response_stream_char)
  show ?thesis
  proof (cases "tok = []")
    case True
    then show ?thesis
      unfolding cs using Done
      by (simp add: sent_tokens_not_done terminal_chunk_def butlast_append
        list_all_butlast sent_tokens_all_not_done sent_tokens_concat)
  next
    case False
    then show ?thesis
      unfolding cs using Done
      by (simp add: sent_tokens_not_done terminal_chunk_def token_chunk_def butlast_append
        list_all_butlast sent_tokens_all_not_done sent_tokens_concat)
  qed
next
  case RunsOut
  with assms(1) show ?thesis by simp
qed

theorem stream_chunks_closed_witness:
  "stream_outcome backend_ok \<noteq> RunsOut
   \<and> fst (generate_response_stream svc0 backend_ok ''Hello'' None) =
       [\<lparr>token = ''Hi'', chunk_model = ''llama2'', chunk_done = False, chunk_success = True,
         chunk_error_reason = None, chunk_duration_ms = None, full_response = None\<rparr>,
        \<lparr>token = [], chunk_model = ''llama2'', chunk_done = True, chunk_success = True,
         chunk_error_reason = None, chunk_duration_ms = Some 1500, full_response = Some ''Hi''\<rparr>]
   \<and> length (filter chunk_done (fst (generate_response_stream svc0 backend_ok ''Hello'' None))) = 1"
  using stream_chunks_closed [of backend_ok "fst (generate_response_stream svc0 backend_ok ''Hello'' None)"
      svc0 "''Hello''" None]
  by (simp add: generate_response_stream_def stream_call_def is_available_def
  get_available_models_def try_except_def svc0_def backend_ok_def py_or_def duration_between_example
  strip_def rstrip_def lstrip_def isspace_def token_chunk_def terminal_chunk_def
  stream_outcome_def Let_def)

text \<open>
  Claim C3 as stated fails: a closing line that carries a token gives two chunks with
  \<^verbatim>\<open>done\<close> true, and the terminal chunk carries the stripped text, not the accumulated
  one.
\<close>

theorem two_done_chunks_counterexample:
  "fst (generate_response_stream svc0
          (backend_ok\<lparr>generate_stream_post := Inr (200, [Obj '' Hi'' True])\<rparr>) ''Hello'' None) =
     [\<lparr>token = '' Hi'', chunk_model = ''llama2'', chunk_done = True, chunk_success = True,
       chunk_error_reason = None, chunk_duration_ms = None, full_response = None\<rparr>,
      \<lparr>token = [], chunk_model = ''llama2'', chunk_done = True, chunk_success = True,
       chunk_error_reason = None, chunk_duration_ms = Some 1500, full_response = Some ''Hi''\<rparr>]
   \<and> length (filter chunk_done
        (fst (generate_response_stream svc0
           (backend_ok\<lparr>generate_stream_post := Inr (200, [Obj '' Hi'' True])\<rparr>) ''Hello'' None))) = 2
   \<and> Some ''Hi'' \<noteq> Some '' Hi''"
  by (simp add: generate_response_stream_def stream_call_def is_available_def
  get_available_models_def try_except_def svc0_def backend_ok_def py_or_def duration_between_example
  strip_def rstrip_def lstrip_def isspace_def token_chunk_def terminal_chunk_def Let_def)

section \<open>Failures of the server become results\<close>

lemma generate_response_reason:
  "\<exists>r. generate_response svc b p m = Inr r \<and> error_reason r = failure_reason b
       \<and> success r = (failure_reason b = None)"
  by (auto simp: generate_response_cases generate_call_cases get_fallback_response_def
      failure_reason_def split: sum.splits prod.splits exn.splits)

text \<open>
  Claim C2, as amended. \<^verbatim>\<open>generate_response\<close> always returns a result and
  \<^verbatim>\<open>generate_response_stream\<close> never ends by an exception. The result has success false
  exactly when the server is unavailable, the call times out or raises, the status is
  not 200, or the body does not decode, and it then carries the matching reason. The
  stream ends with a fallback chunk (success false, with the reason) in the same cases,
  the failure of the body being a line that raises something other than a JSON decoding
  error; every other chunk has success true. A line that is not valid JSON is skipped
  and gives no chunk.
\<close>

theorem failures_become_results:
  "(\<exists>r. generate_response svc b p m = Inr r \<and> error_reason r = failure_reason b
       \<and> success r = (failure_reason b = None))
   \<and> snd (generate_response_stream svc b p m) = None
   \<and> (case stream_outcome b of
        Fallback reason \<Rightarrow>
          fst (generate_response_stream svc b p m) \<noteq> []
          \<and> last (fst (generate_response_stream svc b p m)) =
              get_fallback_stream_response p (stream_model svc b m) reason
          \<and> \<not> chunk_success (last (fst (generate_response_stream svc b p m)))
          \<and> chunk_error_reason (last (fst (generate_response_stream svc b p m))) = Some reason
          \<and> list_all chunk_success (butlast (fst (generate_response_stream svc b p m)))
      | _ \<Rightarrow> list_all chunk_success (fst (generate_response_stream svc b p m)))
   \<and> iter_lines b mn full (Raises (JSONDecodeError x) # rest) = iter_lines b mn full rest"
proof -
  have s: "snd (generate_response_stream svc b p m) = None"
    by (simp add: generate_response_stream_char split: stream_end.splits)
  have c: "(case stream_outcome b of
        Fallback reason \<Rightarrow>
          fst (generate_response_stream svc b p m) \<noteq> []
          \<and> last (fst (generate_response_stream svc b p m)) =
              get_fallback_stream_response p (stream_model svc b m) reason
          \<and> \<not> chunk_success (last (fst (generate_response_stream svc b p m)))
          \<and> chunk_error_reason (last (fst (generate_response_stream svc b p m))) = Some reason
          \<and> list_all chunk_success (butlast (fst (generate_response_stream svc b p m)))
      | _ \<Rightarrow> list_all chunk_success (fst (generate_response_stream svc b p m)))"
    by (simp add: generate_response_stream_char sent_tokens_success terminal_chunk_def
        token_chunk_def butlast_append get_fallback_stream_response_def split: stream_end.splits)
  show ?thesis using generate_response_reason s c by simp
qed

theorem failures_become_results_witness:
  "failure_reason (backend_ok\<lparr>generate_post := Inl (Timeout ''Read timed out'')\<rparr>) = Some ''Request timeout''
   \<and> stream_outcome (backend_ok\<lparr>generate_stream_post := Inr (503, [])\<rparr>) = Fallback ''API error: 503''
   \<and> (\<exists>r. generate_response svc0 (backend_ok\<lparr>generate_post := Inl (Timeout ''Read timed out'')\<rparr>)
            ''Hello'' None = Inr r
        \<and> \<not> success r \<and> error_reason r = Some ''Request timeout'')
   \<and> chunk_error_reason (last (fst (generate_response_stream svc0
         (backend_ok\<lparr>generate_stream_post := Inr (503, [])\<rparr>) ''Hello'' None))) = Some ''API error: 503''"
proof -
  have d: "str_int 503 = ''503''" by code_simp
  have f: "failure_reason (backend_ok\<lparr>generate_post := Inl (Timeout ''Read timed out'')\<rparr>) = Some ''Request timeout''"
    by (simp add: failure_reason_def is_available_def try_except_def backend_ok_def)
  have o: "stream_outcome (backend_ok\<lparr>generate_stream_post := Inr (503, [])\<rparr>) = Fallback ''API error: 503''"
    by (simp add: stream_outcome_def is_available_def try_except_def backend_ok_def d)
  have a: "\<exists>r. generate_response svc0 (backend_ok\<lparr>generate_post := Inl (Timeout ''Read timed out'')\<rparr>)
            ''Hello'' None = Inr r
        \<and> \<not> success r \<and> error_reason r = Some ''Request timeout''"
    using failures_become_results
      [of svc0 "backend_ok\<lparr>generate_post := Inl (Timeout ''Read timed out'')\<rparr>" "''Hello''" None,
        THEN conjunct1]
    by (auto simp: f)
  have c: "chunk_error_reason (last (fst (generate_response_stream svc0
         (backend_ok\<lparr>generate_stream_post := Inr (503, [])\<rparr>) ''Hello'' None))) = Some ''API error: 503''"
    using failures_become_results
      [of svc0 "backend_ok\<lparr>generate_stream_post := Inr (503, [])\<rparr>" "''Hello''" None,
        THEN conjunct2, THEN conjunct2, THEN conjunct1]
    by (simp add: o get_fallback_stream_response_def)
  show ?thesis using f o a c by simp
qed

text \<open>
  Claim C2 as stated fails for a malformed line of a streaming body: it is skipped, and
  no chunk with success false is produced.
\<close>

theorem malformed_line_counterexample:
  "fst (generate_response_stream svc0
          (backend_ok\<lparr>generate_stream_post :=
             Inr (200, [Raises (JSONDecodeError ''Expecting value''), Obj ''Hi'' False, Obj [] True])\<rparr>)
          ''Hello'' None) =
     [\<lparr>token = ''Hi'', chunk_model = ''llama2'', chunk_done = False, chunk_success = True,
       chunk_error_reason = None, chunk_duration_ms = None, full_response = None\<rparr>,
      \<lparr>token = [], chunk_model = ''llama2'', chunk_done = True, chunk_success = True,
       chunk_error_reason = None, chunk_duration_ms = Some 1500, full_response = Some ''Hi''\<rparr>]
   \<and> filter (\<lambda>c. \<not> chunk_success c)
       (fst (generate_response_stream svc0
          (backend_ok\<lparr>generate_stream_post :=
             Inr (200, [Raises (JSONDecodeError ''Expecting value''), Obj ''Hi'' False, Obj [] True])\<rparr>)
          ''Hello'' None)) = []"
  by (simp add: generate_response_stream_def stream_call_def is_available_def
  get_available_models_def try_except_def svc0_def backend_ok_def py_or_def duration_between_example
  strip_def rstrip_def lstrip_def isspace_def token_chunk_def terminal_chunk_def Let_def)

section \<open>Logging by the endpoint\<close>

lemma relay_not_done:
  "list_all (\<lambda>c. \<not> chunk_done c) cs \<Longrightarrow>
     snd (relay full (cs @ rest)) = snd (relay (full @ concat (map token cs)) rest)"
proof (induction cs arbitrary: full)
  case Nil
  show ?case by simp
next
  case (Cons a cs)
  have "snd (relay full ((a # cs) @ rest)) = snd (relay (full @ token a) (cs @ rest))"
    using Cons.prems by (simp add: Let_def split: prod.splits)
  also have "\<dots> = snd (relay ((full @ token a) @ concat (map token cs)) rest)"
    using Cons.prems by (intro Cons.IH) simp
  finally show ?case by simp
qed

lemma relay_done_head:
  "chunk_done c \<Longrightarrow> snd (relay full (c # rest)) = Some (full @ token c, c)"
  by (simp add: Let_def)

lemma relay_all_not_done:
  "list_all (\<lambda>c. \<not> chunk_done c) cs \<Longrightarrow> snd (relay full cs) = None"
  using relay_not_done [of cs full "[]"] by simp

lemma entry_count_log_interaction:
  "entry_count (log_interaction True f p d) =
     (case f of
        Unreadable e \<Rightarrow> 0
      | Truncated ls l \<Rightarrow> entry_count (Content ls) + (if blank_line l then 1 else 0)
      | _ \<Rightarrow> entry_count f + 1)"
  by (simp add: entry_count_def log_interaction_def parse_lines_append split: log_file.splits)

lemma relay_stream_logged:
  "snd (relay [] (fst (generate_response_stream svc b p m))) = None
     \<longleftrightarrow> stream_outcome b = RunsOut"
proof (cases "stream_outcome b")
  case (Fallback reason)
  then show ?thesis
    by (simp add: generate_response_stream_char relay_not_done sent_tokens_all_not_done
        relay_done_head get_fallback_stream_response_def)
next
  case (Done tok)
  then show ?thesis
    by (simp add: generate_response_stream_char relay_not_done sent_tokens_all_not_done
        relay_done_head terminal_chunk_def token_chunk_def)
next
  case RunsOut
  then show ?thesis
    by (simp add: generate_response_stream_char relay_all_not_done sent_tokens_all_not_done)
qed

lemma stream_never_raises: "snd (generate_response_stream svc b p m) = None"
  by (simp add: generate_response_stream_char split: stream_end.splits)

text \<open>
  In complete mode a request whose write succeeds adds exactly one entry to a readable
  log whose lines all end with a newline. In streaming mode it adds one entry unless the
  body of the stream runs out before a line with a true \<^verbatim>\<open>done\<close> or a line that raises;
  then it adds none. After a last line without a newline the entry counts only when that
  line is whitespace, and a last line that did parse no longer does.
\<close>

lemma complete_mode_logs_once:
  "\<not> stream req \<Longrightarrow> write_ok env \<Longrightarrow>
     entry_count (snd (generate_endpoint svc b env f req)) =
       (case f of
          Unreadable e \<Rightarrow> 0
        | Truncated ls l \<Rightarrow> entry_count (Content ls) + (if blank_line l then 1 else 0)
        | _ \<Rightarrow> entry_count f + 1)"
  using generate_response_reason [of svc b "prompt req" "req_model req"]
  by (auto simp: generate_endpoint_def entry_count_log_interaction)

lemma stream_mode_log_count:
  "stream req \<Longrightarrow> write_ok env \<Longrightarrow>
     entry_count (snd (generate_endpoint svc b env f req)) =
       (if stream_outcome b = RunsOut then entry_count f
        else (case f of
                Unreadable e \<Rightarrow> 0
              | Truncated ls l \<Rightarrow> entry_count (Content ls) + (if blank_line l then 1 else 0)
              | _ \<Rightarrow> entry_count f + 1))"
proof -
  assume a: "stream req" "write_ok env"
  obtain chunks raised
    where g: "generate_response_stream svc b (prompt req) (req_model req) = (chunks, raised)"
    by (cases "generate_response_stream svc b (prompt req) (req_model req)")
  have r: "raised = None"
    using stream_never_raises [of svc b "prompt req" "req_model req"] g by simp
  obtain events fin where rl: "relay [] chunks = (events, fin)"
    by (cases "relay [] chunks")
  have fin: "fin = None \<longleftrightarrow> stream_outcome b = RunsOut"
    using relay_stream_logged [of svc b "prompt req" "req_model req"] g rl by simp
  show ?thesis
  proof (cases fin)
    case None
    then show ?thesis
      using a g r rl fin by (simp add: generate_endpoint_def generate_stream_def)
  next
    case (Some fc)
    obtain full chunk where fc: "fc = (full, chunk)" by (cases fc)
    show ?thesis
      using a g r rl fin Some fc
      by (simp add: generate_endpoint_def generate_stream_def entry_count_log_interaction)
  qed
qed

text \<open>
  Claim C1. The claim says that every accepted request, complete or streaming, appends
  exactly one entry to the log. For a streaming request whose body ends without a line
  with a true \<^verbatim>\<open>done\<close> (here a token line followed by a line without token and without
  \<^verbatim>\<open>done\<close>), the endpoint relays the token, sends the end sentinel and leaves the log
  as it was.
\<close>

theorem unterminated_stream_not_logged:
  "generate_endpoint svc0
     (backend_ok\<lparr>generate_stream_post := Inr (200, [Obj ''Hi'' False, Obj [] False])\<rparr>)
     env0 (Content [])
     \<lparr>prompt = ''Hello'', req_model = None, stream = True\<rparr> =
   (Streaming
      [Data \<lparr>token = ''Hi'', chunk_model = ''llama2'', chunk_done = False, chunk_success = True,
             chunk_error_reason = None, chunk_duration_ms = None, full_response = None\<rparr>,
       DoneSentinel],
    Content [])
   \<and> entry_count (snd (generate_endpoint svc0
         (backend_ok\<lparr>generate_stream_post := Inr (200, [Obj ''Hi'' False, Obj [] False])\<rparr>)
         env0 (Content [])
         \<lparr>prompt = ''Hello'', req_model = None, stream = True\<rparr>)) = entry_count (Content [])"
  by (simp add: generate_endpoint_def generate_stream_def generate_response_stream_def
      stream_call_def is_available_def get_available_models_def try_except_def svc0_def
      backend_ok_def env0_def py_or_def token_chunk_def Let_def entry_count_def)

end
